theory Spec2Isabelle
  imports Main "HOL-Library.Multiset" "HOL-Library.AList"
begin

section \<open>Agent orchestration tools (tools/agents.py)\<close>

subsection \<open>Values and batch requests\<close>

text \<open>
  A dependency reference arrives as a JSON scalar: a string (an agent id, an agent type,
  or an index written as text) or an integer (a positional index). Python compares
  values of different types as unequal, as the datatype's equality does.
\<close>

datatype pyval = PStr string | PInt int

definition digit_char :: "nat \<Rightarrow> char" where
  "digit_char d = ''0123456789'' ! d"

function str_nat :: "nat \<Rightarrow> string" where
  "str_nat n = (if n < 10 then [digit_char n] else str_nat (n div 10) @ [digit_char (n mod 10)])"
  by pat_completeness auto
termination
  by (relation "measure (\<lambda>n. n)") auto

declare str_nat.simps [simp del]

definition str_int :: "int \<Rightarrow> string" where
  "str_int i = (if i < 0 then CHR ''-'' # str_nat (nat (- i)) else str_nat (nat i))"

text \<open>Python's \<^verbatim>\<open>str(v)\<close> on the scalars above.\<close>

fun py_str :: "pyval \<Rightarrow> string" where
  "py_str (PStr s) = s"
| "py_str (PInt i) = str_int i"

text \<open>A value stored in a configuration dictionary.\<close>

datatype cval = VStr string | VInt int | VBool bool | VList "pyval list" | VNone

text \<open>\<^verbatim>\<open>type(e).__name__\<close> and \<^verbatim>\<open>str(e)\<close> of a raised exception.\<close>

datatype exn = Exn (exn_type: string) (exn_msg: string)

text \<open>
  The value under the key \<^verbatim>\<open>depends_on\<close> of a request. The checks of
  \<^verbatim>\<open>spawn_agents_batch\<close> do not look at it, so it is whatever the JSON holds: a list,
  \<^verbatim>\<open>null\<close>, or a number. (A string or an object can stand there as well; they are left
  out.) An absent key is the default of \<^verbatim>\<open>.get("depends_on", [])\<close>, the empty list.
\<close>

datatype depends_on_value = Dep_list "pyval list" | Dep_null | Dep_number int

text \<open>\<^verbatim>\<open>for dep in depends_on\<close>: the elements of a list; \<^verbatim>\<open>TypeError\<close> otherwise.\<close>

definition not_iterable :: "string \<Rightarrow> exn" where
  "not_iterable type_name =
     Exn ''TypeError'' ([CHR 0x27] @ type_name @ [CHR 0x27] @ '' object is not iterable'')"

fun iterate :: "depends_on_value \<Rightarrow> exn + pyval list" where
  "iterate (Dep_list deps) = Inr deps"
| "iterate Dep_null = Inl (not_iterable ''NoneType'')"
| "iterate (Dep_number n) = Inl (not_iterable ''int'')"

text \<open>The truth value of \<^verbatim>\<open>depends_on\<close> in \<^verbatim>\<open>if depends_on\<close> and \<^verbatim>\<open>not depends_on\<close>.\<close>

fun truthy :: "depends_on_value \<Rightarrow> bool" where
  "truthy (Dep_list deps) = (deps \<noteq> [])"
| "truthy Dep_null = False"
| "truthy (Dep_number n) = (n \<noteq> 0)"

text \<open>
  One entry of the \<^verbatim>\<open>agents\<close> list of \<^verbatim>\<open>spawn_agents_batch\<close>. The two required
  keys are plain fields; an optional key that the code reads with \<^verbatim>\<open>.get(key, default)\<close>
  holds the default when absent (\<^verbatim>\<open>[]\<close>, \<^verbatim>\<open>""\<close>), and \<^verbatim>\<open>agent_id\<close> and
  \<^verbatim>\<open>configuration\<close>, read with \<^verbatim>\<open>.get(key)\<close>, are options.
\<close>

record agent_config =
  agent_type :: string
  task_description :: string
  capabilities :: "string list"
  initial_context :: string
  configuration :: "(string \<times> cval) list option"
  depends_on :: depends_on_value
  agent_id :: "pyval option"

subsection \<open>\<^verbatim>\<open>_organize_by_dependencies\<close>\<close>

text \<open>
  The innermost loop: dependency \<^verbatim>\<open>dep\<close> is found when some request \<^verbatim>\<open>j\<close> that is in
  \<^verbatim>\<open>placed_agents\<close> matches it by \<^verbatim>\<open>agent_id\<close>, by \<^verbatim>\<open>str(j) == str(dep)\<close>, or by
  \<^verbatim>\<open>agent_type\<close>.
\<close>

definition dep_found :: "agent_config list \<Rightarrow> nat set \<Rightarrow> pyval \<Rightarrow> bool" where
  "dep_found agents_config placed_agents dep =
     list_ex (\<lambda>(j, other_config).
                j \<in> placed_agents \<and>
                (agent_id other_config = Some dep \<or>
                 str_nat j = py_str dep \<or>
                 PStr (agent_type other_config) = dep))
             (enumerate 0 agents_config)"

text \<open>The loop over \<^verbatim>\<open>depends_on\<close>, which stops at the first dependency not found.\<close>

definition dependencies_satisfied :: "agent_config list \<Rightarrow> nat set \<Rightarrow> pyval list \<Rightarrow> bool" where
  "dependencies_satisfied agents_config placed_agents deps =
     list_all (dep_found agents_config placed_agents) deps"

text \<open>
  One pass of \<^verbatim>\<open>for i, agent_config in enumerate(agents_config)\<close>. The state is the pair
  \<^verbatim>\<open>(current_wave, placed_agents)\<close>; \<^verbatim>\<open>placed_agents.add(i)\<close> happens inside the pass, so a
  request later in the same pass already sees it. The loop over \<^verbatim>\<open>depends_on\<close> of a
  request not yet placed raises when the value is not iterable.
\<close>

fun scan :: "agent_config list \<Rightarrow> (nat \<times> agent_config) list \<Rightarrow>
             agent_config list \<times> nat set \<Rightarrow> exn + agent_config list \<times> nat set" where
  "scan agents_config [] st = Inr st"
| "scan agents_config ((i, c) # rest) (current_wave, placed_agents) =
     (if i \<in> placed_agents then scan agents_config rest (current_wave, placed_agents)
      else case iterate (depends_on c) of
        Inl e \<Rightarrow> Inl e
      | Inr deps \<Rightarrow>
          if \<not> truthy (depends_on c) \<or> dependencies_satisfied agents_config placed_agents deps
          then scan agents_config rest (current_wave @ [c], insert i placed_agents)
          else scan agents_config rest (current_wave, placed_agents))"

text \<open>
  The same pass when no loop over \<^verbatim>\<open>depends_on\<close> raises, recording the positions of the
  requests instead of the requests.
\<close>

fun dep_items :: "depends_on_value \<Rightarrow> pyval list" where
  "dep_items (Dep_list deps) = deps"
| "dep_items Dep_null = []"
| "dep_items (Dep_number n) = []"

fun iterable :: "depends_on_value \<Rightarrow> bool" where
  "iterable (Dep_list deps) = True"
| "iterable Dep_null = False"
| "iterable (Dep_number n) = False"

fun scan_ix :: "agent_config list \<Rightarrow> (nat \<times> agent_config) list \<Rightarrow>
                nat list \<times> nat set \<Rightarrow> nat list \<times> nat set" where
  "scan_ix agents_config [] st = st"
| "scan_ix agents_config ((i, c) # rest) (current_wave, placed_agents) =
     (if i \<in> placed_agents then scan_ix agents_config rest (current_wave, placed_agents)
      else if dep_items (depends_on c) = [] \<or>
              dependencies_satisfied agents_config placed_agents (dep_items (depends_on c))
      then scan_ix agents_config rest (current_wave @ [i], insert i placed_agents)
      else scan_ix agents_config rest (current_wave, placed_agents))"

definition remaining_agents :: "agent_config list \<Rightarrow> nat set \<Rightarrow> agent_config list" where
  "remaining_agents agents_config placed_agents =
     map snd (filter (\<lambda>(i, c). i \<notin> placed_agents) (enumerate 0 agents_config))"

definition remaining_ix :: "agent_config list \<Rightarrow> nat set \<Rightarrow> nat list" where
  "remaining_ix agents_config placed_agents =
     map fst (filter (\<lambda>(i, c). i \<notin> placed_agents) (enumerate 0 agents_config))"

text \<open>
  Facts about one pass, needed for the termination of the loop around it: the pass appends
  to the wave the positions it adds to \<^verbatim>\<open>placed_agents\<close>, each once, and none that was
  placed before.
\<close>

lemma scan_ix_spec:
  "\<exists>new. scan_ix cfgs es (w, p) = (w @ new, p \<union> set new) \<and> distinct new \<and>
         set new \<inter> p = {} \<and> set new \<subseteq> fst ` set es"
proof (induction es arbitrary: w p)
  case Nil
  show ?case by simp
next
  case (Cons e es)
  obtain i c where e: "e = (i, c)" by (cases e)
  show ?case
  proof (cases "i \<notin> p \<and> (dep_items (depends_on c) = [] \<or>
                  dependencies_satisfied cfgs p (dep_items (depends_on c)))")
    case False
    then have "scan_ix cfgs (e # es) (w, p) = scan_ix cfgs es (w, p)"
      by (auto simp: e)
    moreover obtain new where "scan_ix cfgs es (w, p) = (w @ new, p \<union> set new)"
      "distinct new" "set new \<inter> p = {}" "set new \<subseteq> fst ` set es"
      using Cons.IH [of w p] by blast
    ultimately show ?thesis by (intro exI [of _ new]) auto
  next
    case True
    then have "scan_ix cfgs (e # es) (w, p) = scan_ix cfgs es (w @ [i], insert i p)"
      by (auto simp: e)
    moreover obtain new where n: "scan_ix cfgs es (w @ [i], insert i p) = ((w @ [i]) @ new, insert i p \<union> set new)"
      "distinct new" "set new \<inter> insert i p = {}" "set new \<subseteq> fst ` set es"
      using Cons.IH [of "w @ [i]" "insert i p"] by blast
    ultimately show ?thesis using True by (intro exI [of _ "i # new"]) (auto simp: e)
  qed
qed

lemma iterate_iterable: "iterable d \<Longrightarrow> iterate d = Inr (dep_items d)"
  by (cases d) simp_all

lemma iterate_not_iterable: "\<not> iterable d \<Longrightarrow> \<exists>e. iterate d = Inl e"
  by (cases d) simp_all

lemma truthy_iterable: "iterable d \<Longrightarrow> truthy d = (dep_items d \<noteq> [])"
  by (cases d) simp_all

text \<open>A pass that returns is the pass on positions.\<close>

lemma scan_scan_ix:
  "\<forall>(i, c) \<in> set es. c = cfgs ! i \<Longrightarrow> scan cfgs es (map ((!) cfgs) w, p) = Inr st \<Longrightarrow>
   st = (map ((!) cfgs) (fst (scan_ix cfgs es (w, p))), snd (scan_ix cfgs es (w, p)))"
proof (induction es arbitrary: w p)
  case Nil
  then show ?case by simp
next
  case (Cons e es)
  obtain i c where e: "e = (i, c)" by (cases e)
  have c: "c = cfgs ! i" using Cons.prems(1) by (simp add: e)
  have r: "\<forall>(i, c) \<in> set es. c = cfgs ! i" using Cons.prems(1) by simp
  show ?case
  proof (cases "i \<in> p")
    case True
    then show ?thesis using Cons.IH [OF r, of w p] Cons.prems(2) by (simp add: e)
  next
    case False
    then obtain deps where it: "iterate (depends_on c) = Inr deps"
      using Cons.prems(2) by (cases "iterate (depends_on c)") (simp_all add: e)
    then have d: "iterable (depends_on c)" "deps = dep_items (depends_on c)"
      by (cases "depends_on c"; simp)+
    show ?thesis
    proof (cases "\<not> truthy (depends_on c) \<or> dependencies_satisfied cfgs p deps")
      case True
      then have "scan cfgs es (map ((!) cfgs) (w @ [i]), insert i p) = Inr st"
        using Cons.prems(2) False it by (simp add: e c)
      from Cons.IH [OF r this] True False d show ?thesis
        by (auto simp: e truthy_iterable)
    next
      case no: False
      then have "scan cfgs es (map ((!) cfgs) w, p) = Inr st"
        using Cons.prems(2) False it by (simp add: e)
      from Cons.IH [OF r this] no False d show ?thesis
        by (auto simp: e truthy_iterable)
    qed
  qed
qed

text \<open>A pass over iterable values returns.\<close>

lemma scan_returns:
  "\<forall>(i, c) \<in> set es. iterable (depends_on c) \<Longrightarrow> \<exists>st'. scan cfgs es st = Inr st'"
proof (induction es arbitrary: st)
  case Nil
  show ?case by simp
next
  case (Cons e es)
  obtain i c where e: "e = (i, c)" by (cases e)
  obtain w p where st: "st = (w, p)" by (cases st)
  have r: "\<forall>(i, c) \<in> set es. iterable (depends_on c)" using Cons.prems by simp
  have it: "iterate (depends_on c) = Inr (dep_items (depends_on c))"
    using Cons.prems by (simp add: e iterate_iterable)
  show ?case
    using Cons.IH [OF r, of "(w, p)"] Cons.IH [OF r, of "(w @ [c], insert i p)"]
    by (simp add: e st it)
qed

text \<open>A pass that meets a value that is not iterable, on a request not yet placed, raises.\<close>

lemma scan_raises:
  "(i, c) \<in> set es \<Longrightarrow> \<not> iterable (depends_on c) \<Longrightarrow> i \<notin> p \<Longrightarrow> distinct (map fst es) \<Longrightarrow>
   \<exists>e. scan cfgs es (w, p) = Inl e"
proof (induction es arbitrary: w p)
  case Nil
  then show ?case by simp
next
  case (Cons x es)
  obtain j d where x: "x = (j, d)" by (cases x)
  show ?case
  proof (cases "(i, c) = (j, d)")
    case True
    then show ?thesis
      using Cons.prems(2,3) iterate_not_iterable [of "depends_on c"] by (auto simp: x)
  next
    case False
    then have m: "(i, c) \<in> set es" using Cons.prems(1) by (auto simp: x)
    then have ij: "i \<noteq> j" using Cons.prems(4) by (auto simp: x rev_image_eqI)
    have ds: "distinct (map fst es)" using Cons.prems(4) by simp
    have a: "\<exists>e. scan cfgs es (w, p) = Inl e"
      using Cons.IH [OF m Cons.prems(2,3) ds] .
    have b: "\<exists>e. scan cfgs es (w @ [d], insert j p) = Inl e"
      using Cons.IH [OF m Cons.prems(2) _ ds, of "insert j p"] Cons.prems(3) ij by simp
    show ?thesis using a b by (cases "iterate (depends_on d)") (auto simp: x)
  qed
qed

lemma enumerate_nth: "\<forall>(i, c) \<in> set (enumerate 0 cfgs). c = cfgs ! i"
  by (auto simp: in_set_enumerate_eq)

lemma scan_progress:
  assumes "scan cfgs (enumerate 0 cfgs) ([], p) = Inr (cw, p')" and "cw \<noteq> []"
  shows "card {i. i < length cfgs \<and> i \<notin> p'} < card {i. i < length cfgs \<and> i \<notin> p}"
proof -
  obtain new where n: "scan_ix cfgs (enumerate 0 cfgs) ([], p) = ([] @ new, p \<union> set new)"
      "set new \<inter> p = {}" "set new \<subseteq> fst ` set (enumerate 0 cfgs)"
    using scan_ix_spec [of cfgs "enumerate 0 cfgs" "[]" p] by blast
  have s: "(cw, p') = (map ((!) cfgs) new, p \<union> set new)"
    using scan_scan_ix [OF enumerate_nth, of cfgs "[]" p "(cw, p')"] assms(1) n(1) by simp
  from assms(2) s have "new \<noteq> []" by auto
  then obtain k where k: "k \<in> set new" by (cases new) auto
  have kn: "k < length cfgs" using k n(3) by (auto simp: in_set_enumerate_eq)
  have kp: "k \<notin> p" using k n(2) by auto
  have "{i. i < length cfgs \<and> i \<notin> p \<union> set new} \<subset> {i. i < length cfgs \<and> i \<notin> p}"
    using k kn kp by auto
  moreover have "p' = p \<union> set new" using s by simp
  ultimately show ?thesis by (simp add: psubset_card_mono)
qed

function waves_loop :: "agent_config list \<Rightarrow> nat set \<Rightarrow> agent_config list list \<Rightarrow>
                        exn + agent_config list list" where
  "waves_loop agents_config placed_agents waves =
     (if card placed_agents < length agents_config then
        (case scan agents_config (enumerate 0 agents_config) ([], placed_agents) of
           Inl e \<Rightarrow> Inl e
         | Inr (current_wave, placed_agents') \<Rightarrow>
             if current_wave \<noteq> [] then waves_loop agents_config placed_agents' (waves @ [current_wave])
             else if remaining_agents agents_config placed_agents' \<noteq> []
                  then Inr (waves @ [remaining_agents agents_config placed_agents'])
                  else Inr waves)
      else Inr waves)"
  by pat_completeness auto
termination
  apply (relation "measure (\<lambda>(cfgs, p, ws). card {i. i < length cfgs \<and> i \<notin> p})")
   apply simp
  subgoal premises prems for cfgs p ws
    using prems(2) prems(4) scan_progress [of cfgs p] unfolding prems(3) [symmetric] by simp
  done

declare waves_loop.simps [simp del]

definition organize_by_dependencies :: "agent_config list \<Rightarrow> exn + agent_config list list" where
  "organize_by_dependencies agents_config = waves_loop agents_config {} []"

text \<open>
  The loop again on positions: \<^verbatim>\<open>organize_ix\<close> gives, for each wave, the positions in
  \<^verbatim>\<open>agents_config\<close> of the requests that \<^verbatim>\<open>_organize_by_dependencies\<close> puts in it when it
  returns.
\<close>

lemma scan_ix_progress:
  assumes "scan_ix cfgs (enumerate 0 cfgs) ([], p) = (cw, p')" and "cw \<noteq> []"
  shows "card {i. i < length cfgs \<and> i \<notin> p'} < card {i. i < length cfgs \<and> i \<notin> p}"
proof -
  obtain new where n: "scan_ix cfgs (enumerate 0 cfgs) ([], p) = ([] @ new, p \<union> set new)"
      "set new \<inter> p = {}" "set new \<subseteq> fst ` set (enumerate 0 cfgs)"
    using scan_ix_spec [of cfgs "enumerate 0 cfgs" "[]" p] by blast
  from assms n(1) have "new \<noteq> []" and p': "p' = p \<union> set new" by auto
  then obtain k where k: "k \<in> set new" by (cases new) auto
  have kn: "k < length cfgs" using k n(3) by (auto simp: in_set_enumerate_eq)
  have kp: "k \<notin> p" using k n(2) by auto
  have "{i. i < length cfgs \<and> i \<notin> p \<union> set new} \<subset> {i. i < length cfgs \<and> i \<notin> p}"
    using k kn kp by auto
  then show ?thesis by (simp add: p' psubset_card_mono)
qed

function waves_loop_ix :: "agent_config list \<Rightarrow> nat set \<Rightarrow> nat list list \<Rightarrow> nat list list" where
  "waves_loop_ix agents_config placed_agents waves =
     (if card placed_agents < length agents_config then
        (case scan_ix agents_config (enumerate 0 agents_config) ([], placed_agents) of
           (current_wave, placed_agents') \<Rightarrow>
             if current_wave \<noteq> [] then waves_loop_ix agents_config placed_agents' (waves @ [current_wave])
             else if remaining_ix agents_config placed_agents' \<noteq> []
                  then waves @ [remaining_ix agents_config placed_agents']
                  else waves)
      else waves)"
  by pat_completeness auto
termination
  apply (relation "measure (\<lambda>(cfgs, p, ws). card {i. i < length cfgs \<and> i \<notin> p})")
   apply simp
  subgoal premises prems for cfgs p ws
    using scan_ix_progress [OF prems(2) [symmetric] prems(3)] by simp
  done

declare waves_loop_ix.simps [simp del]

definition organize_ix :: "agent_config list \<Rightarrow> nat list list" where
  "organize_ix agents_config = waves_loop_ix agents_config {} []"

lemma remaining_agents_ix: "remaining_agents cfgs p = map ((!) cfgs) (remaining_ix cfgs p)"
proof -
  have "map snd (filter P (enumerate 0 cfgs)) = map ((!) cfgs \<circ> fst) (filter P (enumerate 0 cfgs))" for P
    by (rule map_cong) (use enumerate_nth [of cfgs] in auto)
  then show ?thesis by (simp add: remaining_agents_def remaining_ix_def)
qed

lemma set_remaining_ix: "set (remaining_ix cfgs p) = {..<length cfgs} - p"
  by (auto simp: remaining_ix_def in_set_enumerate_eq image_iff)

lemma distinct_remaining_ix: "distinct (remaining_ix cfgs p)"
  unfolding remaining_ix_def by (rule distinct_map_filter) simp

definition all_iterable :: "agent_config list \<Rightarrow> bool" where
  "all_iterable agents_config = list_all (\<lambda>c. iterable (depends_on c)) agents_config"

lemma scan_iterable:
  assumes "all_iterable cfgs"
  shows "scan cfgs (enumerate 0 cfgs) (map ((!) cfgs) w, p) =
           Inr (map ((!) cfgs) (fst (scan_ix cfgs (enumerate 0 cfgs) (w, p))),
                snd (scan_ix cfgs (enumerate 0 cfgs) (w, p)))"
proof -
  have "\<forall>(i, c) \<in> set (enumerate 0 cfgs). iterable (depends_on c)"
    using assms by (auto simp: all_iterable_def list_all_iff in_set_enumerate_eq)
  then obtain st where st: "scan cfgs (enumerate 0 cfgs) (map ((!) cfgs) w, p) = Inr st"
    using scan_returns by blast
  from scan_scan_ix [OF enumerate_nth st] st show ?thesis by simp
qed

lemma waves_loop_refines:
  "all_iterable cfgs \<Longrightarrow>
   waves_loop cfgs p (map (map ((!) cfgs)) ws) = Inr (map (map ((!) cfgs)) (waves_loop_ix cfgs p ws))"
proof (induction cfgs p ws rule: waves_loop_ix.induct)
  case (1 cfgs p ws)
  obtain cw p' where s: "scan_ix cfgs (enumerate 0 cfgs) ([], p) = (cw, p')"
    by (cases "scan_ix cfgs (enumerate 0 cfgs) ([], p)")
  have s': "scan cfgs (enumerate 0 cfgs) ([], p) = Inr (map ((!) cfgs) cw, p')"
    using scan_iterable [OF "1.prems", of "[]" p] s by simp
  show ?case
  proof (cases "card p < length cfgs")
    case False
    then show ?thesis
      by (simp add: waves_loop.simps [of cfgs p] waves_loop_ix.simps [of cfgs p])
  next
    case True
    show ?thesis
    proof (cases "cw = []")
      case True
      with \<open>card p < length cfgs\<close> show ?thesis
        by (simp add: waves_loop.simps [of cfgs p] waves_loop_ix.simps [of cfgs p] s s'
            remaining_agents_ix)
    next
      case False
      have "waves_loop cfgs p' (map (map ((!) cfgs)) (ws @ [cw]))
              = Inr (map (map ((!) cfgs)) (waves_loop_ix cfgs p' (ws @ [cw])))"
        using "1.IH" [OF True s [symmetric] False "1.prems"] .
      with True False show ?thesis
        by (simp add: waves_loop.simps [of cfgs p] waves_loop_ix.simps [of cfgs p] s s')
    qed
  qed
qed

lemma organize_by_dependencies_ix:
  "all_iterable cfgs \<Longrightarrow>
   organize_by_dependencies cfgs = Inr (map (map ((!) cfgs)) (organize_ix cfgs))"
  using waves_loop_refines [of cfgs "{}" "[]"]
  by (simp add: organize_by_dependencies_def organize_ix_def)

text \<open>One value that is not iterable, and \<^verbatim>\<open>_organize_by_dependencies\<close> raises.\<close>

lemma organize_by_dependencies_raises:
  assumes "\<not> all_iterable cfgs"
  shows "\<exists>e. organize_by_dependencies cfgs = Inl e"
proof -
  obtain c where c: "c \<in> set cfgs" "\<not> iterable (depends_on c)"
    using assms by (auto simp: all_iterable_def list_all_iff)
  then obtain i where i: "i < length cfgs" "cfgs ! i = c" by (auto simp: in_set_conv_nth)
  then have m: "(i, c) \<in> set (enumerate 0 cfgs)" by (simp add: in_set_enumerate_eq)
  have "\<exists>e. scan cfgs (enumerate 0 cfgs) ([], {}) = Inl e"
    by (rule scan_raises [OF m c(2)]) simp_all
  moreover have "card ({} :: nat set) < length cfgs" using i(1) by (cases cfgs) simp_all
  ultimately show ?thesis
    by (auto simp: organize_by_dependencies_def waves_loop.simps [of cfgs "{}"])
qed

lemma waves_loop_ix_partition:
  "distinct (concat ws) \<Longrightarrow> set (concat ws) = p \<Longrightarrow> p \<subseteq> {..<length cfgs} \<Longrightarrow>
   distinct (concat (waves_loop_ix cfgs p ws)) \<and>
   set (concat (waves_loop_ix cfgs p ws)) = {..<length cfgs}"
proof (induction cfgs p ws rule: waves_loop_ix.induct)
  case (1 cfgs p ws)
  obtain new where n: "scan_ix cfgs (enumerate 0 cfgs) ([], p) = ([] @ new, p \<union> set new)"
      "distinct new" "set new \<inter> p = {}" "set new \<subseteq> fst ` set (enumerate 0 cfgs)"
    using scan_ix_spec [of cfgs "enumerate 0 cfgs" "[]" p] by blast
  have nn: "set new \<subseteq> {..<length cfgs}" using n(4) by (auto simp: in_set_enumerate_eq)
  show ?case
  proof (cases "card p < length cfgs")
    case False
    have "card p \<le> card {..<length cfgs}"
      using "1.prems"(3) by (intro card_mono) auto
    then have "p = {..<length cfgs}"
      using "1.prems"(3) False by (intro card_subset_eq) auto
    moreover have "waves_loop_ix cfgs p ws = ws"
      using False by (simp add: waves_loop_ix.simps [of cfgs p])
    ultimately show ?thesis using "1.prems" by simp
  next
    case True
    show ?thesis
    proof (cases "new = []")
      case True
      have "distinct (concat ws @ remaining_ix cfgs p)"
        using "1.prems" by (auto simp: distinct_remaining_ix set_remaining_ix)
      moreover have "set (concat ws @ remaining_ix cfgs p) = {..<length cfgs}"
        using "1.prems" by (auto simp: set_remaining_ix)
      moreover have "remaining_ix cfgs p = [] \<Longrightarrow> set (concat ws) = {..<length cfgs}"
        using "1.prems" set_remaining_ix [of cfgs p] by auto
      moreover have "waves_loop_ix cfgs p ws =
          (if remaining_ix cfgs p \<noteq> [] then ws @ [remaining_ix cfgs p] else ws)"
        using True \<open>card p < length cfgs\<close> n(1) by (simp add: waves_loop_ix.simps [of cfgs p])
      ultimately show ?thesis using "1.prems"(1) by (auto simp del: set_concat)
    next
      case False
      have a: "distinct (concat (ws @ [new]))" using "1.prems" n(2,3) by auto
      have b: "set (concat (ws @ [new])) = p \<union> set new" using "1.prems" by auto
      have c: "p \<union> set new \<subseteq> {..<length cfgs}" using "1.prems" nn by auto
      have "distinct (concat (waves_loop_ix cfgs (p \<union> set new) (ws @ [new]))) \<and>
            set (concat (waves_loop_ix cfgs (p \<union> set new) (ws @ [new]))) = {..<length cfgs}"
        using "1.IH" [OF True _ False a b c] n(1) by simp
      with True False n(1) show ?thesis by (simp add: waves_loop_ix.simps [of cfgs p])
    qed
  qed
qed

lemma organize_ix_perm: "mset (concat (organize_ix cfgs)) = mset [0..<length cfgs]"
proof -
  have "distinct (concat (organize_ix cfgs)) \<and> set (concat (organize_ix cfgs)) = {..<length cfgs}"
    unfolding organize_ix_def by (rule waves_loop_ix_partition) auto
  then show ?thesis
    by (intro set_eq_iff_mset_eq_distinct [THEN iffD1]) (auto simp: atLeast0LessThan)
qed

lemma organize_by_dependencies_perm:
  assumes "organize_by_dependencies cfgs = Inr waves"
  shows "mset (concat waves) = mset cfgs"
proof -
  have it: "all_iterable cfgs"
    using assms organize_by_dependencies_raises [of cfgs] by auto
  have "waves = map (map ((!) cfgs)) (organize_ix cfgs)"
    using assms organize_by_dependencies_ix [OF it] by simp
  then have "concat waves = map ((!) cfgs) (concat (organize_ix cfgs))"
    by (simp add: map_concat)
  then have "mset (concat waves) = image_mset ((!) cfgs) (mset [0..<length cfgs])"
    by (simp add: organize_ix_perm)
  also have "\<dots> = mset (map ((!) cfgs) [0..<length cfgs])" by simp
  also have "\<dots> = mset cfgs" by (simp add: map_nth)
  finally show ?thesis .
qed

subsection \<open>The durable store and the other collaborators\<close>

datatype agent_status = PENDING | IDLE | ACTIVE | COMPLETED | TERMINATED

record agent =
  ag_agent_type :: string
  ag_repository_path :: string
  ag_capabilities :: "string list"
  ag_configuration :: "(string \<times> cval) list"
  ag_status :: agent_status
  ag_claude_pid :: "int option"

text \<open>
  A call of the process launcher \<^verbatim>\<open>spawn_claude_with_profile\<close>: work folder, agent type and
  session id.
\<close>

record launch_call =
  lc_workFolder :: string
  lc_agent_type :: string
  lc_session_id :: "string option"

text \<open>
  What the functions of this file act on: the agent records of \<^verbatim>\<open>AgentService\<close>, the
  launcher calls made, the rooms created and joined through \<^verbatim>\<open>CommunicationService\<close>,
  and the process ids probed with \<^verbatim>\<open>psutil\<close>.
\<close>

record world =
  agents :: "string \<rightharpoonup> agent"
  launches :: "launch_call list"
  rooms_created :: "string list"
  rooms_joined :: "(string \<times> string) list"
  probes :: "int list"

text \<open>
  Modelled from the spec: \<^verbatim>\<open>AgentService.create_agent\<close> is not in this file. The spec has
  the durable record created with status \<^verbatim>\<open>PENDING\<close>, under the id the store assigns, and
  no process identifier before a spawn succeeds.
\<close>

definition create_agent :: "string \<Rightarrow> string \<Rightarrow> string \<Rightarrow> string list \<Rightarrow>
    (string \<times> cval) list option \<Rightarrow> world \<Rightarrow> world" where
  "create_agent new_id a_type repo caps config w =
     w\<lparr>agents := (agents w)(new_id \<mapsto>
        \<lparr>ag_agent_type = a_type, ag_repository_path = repo, ag_capabilities = caps,
         ag_configuration = (case config of None \<Rightarrow> [] | Some c \<Rightarrow> c),
         ag_status = PENDING, ag_claude_pid = None\<rparr>)\<rparr>"

text \<open>
  Modelled from the spec: \<^verbatim>\<open>AgentService.update_agent_status\<close> is not in this file. The
  spec has the status set and the execution metadata merged into the configuration.
\<close>

definition update_agent_status :: "string \<Rightarrow> agent_status \<Rightarrow> (string \<times> cval) list \<Rightarrow> world \<Rightarrow> world" where
  "update_agent_status a_id status agent_data w =
     (case agents w a_id of
        None \<Rightarrow> w
      | Some a \<Rightarrow> w\<lparr>agents := (agents w)(a_id \<mapsto>
          a\<lparr>ag_status := status, ag_configuration := AList.merge (ag_configuration a) agent_data\<rparr>)\<rparr>)"

text \<open>
  Modelled from the spec: \<^verbatim>\<open>AgentService.update_agent_pid\<close> is not in this file. The spec
  has the external process identifier set on the record once the spawn succeeds.
\<close>

definition update_agent_pid :: "string \<Rightarrow> int \<Rightarrow> world \<Rightarrow> world" where
  "update_agent_pid a_id claude_pid w =
     (case agents w a_id of
        None \<Rightarrow> w
      | Some a \<Rightarrow> w\<lparr>agents := (agents w)(a_id \<mapsto> a\<lparr>ag_claude_pid := Some claude_pid\<rparr>)\<rparr>)"

text \<open>
  Modelled from the spec: \<^verbatim>\<open>AgentService.get_agent_by_id\<close> is not in this file. The spec
  has it read the current record; nothing is returned for an unknown id.
\<close>

definition get_agent_by_id :: "string \<Rightarrow> world \<Rightarrow> agent option" where
  "get_agent_by_id a_id w = agents w a_id"

text \<open>The two states that no transition leaves.\<close>

definition is_terminal :: "agent_status \<Rightarrow> bool" where
  "is_terminal s = (s = COMPLETED \<or> s = TERMINATED)"

text \<open>
  Modelled from the spec: \<^verbatim>\<open>AgentService.complete_agent\<close> is not in this file. The spec
  has the tracker transition the agent to \<^verbatim>\<open>COMPLETED\<close> and persist the change, and has no
  transition leave \<^verbatim>\<open>COMPLETED\<close> or \<^verbatim>\<open>TERMINATED\<close>.
\<close>

definition complete_agent :: "string \<Rightarrow> world \<Rightarrow> world" where
  "complete_agent a_id w =
     (case agents w a_id of
        None \<Rightarrow> w
      | Some a \<Rightarrow>
          if is_terminal (ag_status a) then w
          else w\<lparr>agents := (agents w)(a_id \<mapsto> a\<lparr>ag_status := COMPLETED\<rparr>)\<rparr>)"

text \<open>
  Modelled from the spec: \<^verbatim>\<open>AgentService.terminate_agent\<close> is not in this file. The spec
  has a termination request transition any non-terminal agent to \<^verbatim>\<open>TERMINATED\<close>, and
  report an unknown or already terminal agent as not found or already terminated.
\<close>

definition service_terminate_agent :: "string \<Rightarrow> world \<Rightarrow> (exn + bool) \<times> world" where
  "service_terminate_agent a_id w =
     (case agents w a_id of
        None \<Rightarrow> (Inr False, w)
      | Some a \<Rightarrow>
          if is_terminal (ag_status a) then (Inr False, w)
          else (Inr True, w\<lparr>agents := (agents w)(a_id \<mapsto> a\<lparr>ag_status := TERMINATED\<rparr>)\<rparr>))"

text \<open>The result dictionary of the launcher, and \<^verbatim>\<open>process.poll()\<close> of its process.\<close>

datatype process = Process (poll: "int option")

record claude_result =
  cr_success :: bool
  cr_error :: "string option"
  cr_process :: "process option"
  cr_pid :: "int option"

datatype create_result = Created string | Rejected "string option"

text \<open>
  What the collaborators answer during one call of \<^verbatim>\<open>_spawn_single_agent\<close>; each is asked
  at most once in a call. \<^verbatim>\<open>Some e\<close> and \<^verbatim>\<open>Inl e\<close> are a raised exception.
\<close>

record env =
  parse_ai_json_reply :: "exn + (string \<times> cval) list option"
  create_agent_reply :: "exn + create_result"
  setup_dependency_monitoring_reply :: "exn + bool"
  spawn_claude_sync_available :: bool
  join_room_reply :: "exn option"
  create_room_reply :: "exn option"
  get_agent_tool_profile_reply :: "exn option"
  format_reply :: "exn + string"
  import_reply :: "exn option"
  spawn_claude_reply :: "exn + claude_result"
  update_agent_status_reply :: "exn option"
  update_agent_pid_reply :: "exn option"
  now_execution :: string
  now_return :: string

subsection \<open>\<^verbatim>\<open>_spawn_single_agent\<close>\<close>

record spawn_request =
  sr_agent_type :: string
  sr_repository_path :: string
  sr_task_description :: string
  sr_capabilities :: "string list"
  sr_initial_context :: string
  sr_configuration :: "(string \<times> cval) list option"
  sr_depends_on :: depends_on_value
  sr_foundation_session_id :: string
  sr_auto_execute :: bool
  sr_coordination_room :: string

datatype execution_info =
    No_execution
  | Spawned (ei_claude_pid: int) (ei_foundation_session_id: string) (ei_coordination_room: string)
            (ei_started_at: string)
  | Spawn_failed (ei_error: string) (ei_error_type: string) (ei_failed_at: string)

record spawn_payload =
  sp_agent_id :: string
  sp_agent_type :: string
  sp_agent_name :: string
  sp_repository_path :: string
  sp_task_description :: string
  sp_auto_execute :: bool
  sp_claude_pid :: "int option"
  sp_execution_info :: execution_info
  sp_dependency_info :: "bool option"
  sp_coordination_room :: string
  sp_created_at :: string

text \<open>
  The dictionary returned: \<^verbatim>\<open>{"error": {"code": ..., "message": ...}}\<close> or
  \<^verbatim>\<open>{"success": True, ...}\<close>.
\<close>

datatype spawn_result =
    Error_result (error_code: string) (error_message: string)
  | Success_result spawn_payload

definition room_name_of :: "spawn_request \<Rightarrow> string \<Rightarrow> string" where
  "room_name_of req a_id =
     (if sr_coordination_room req \<noteq> [] then sr_coordination_room req
      else sr_agent_type req @ ''-'' @ take 8 a_id)"

text \<open>Lines 426 and 427: \<^verbatim>\<open>if depends_on is None: depends_on = []\<close>.\<close>

fun depends_or_empty :: "depends_on_value \<Rightarrow> depends_on_value" where
  "depends_or_empty Dep_null = Dep_list []"
| "depends_or_empty d = d"

text \<open>The value of \<^verbatim>\<open>depends_on\<close> as an entry of a configuration dictionary.\<close>

fun dep_cval :: "depends_on_value \<Rightarrow> cval" where
  "dep_cval (Dep_list deps) = VList deps"
| "dep_cval (Dep_number n) = VInt n"
| "dep_cval Dep_null = VNone"

text \<open>
  Lines 452 to 456: \<^verbatim>\<open>setup_dependency_monitoring\<close> is called when \<^verbatim>\<open>depends_on\<close> is true;
  \<^verbatim>\<open>dependency_info\<close> is its answer, kept here as the answer's \<^verbatim>\<open>success\<close> entry.
\<close>

definition dependency_step :: "env \<Rightarrow> depends_on_value \<Rightarrow> exn + bool option" where
  "dependency_step env deps =
     (if truthy deps then
        (case setup_dependency_monitoring_reply env of
           Inl e \<Rightarrow> Inl e
         | Inr success \<Rightarrow> Inr (Some success))
      else Inr None)"

text \<open>
  \<^verbatim>\<open>', '.join(depends_on)\<close>, evaluated only when \<^verbatim>\<open>depends_on\<close> is true, raises
  \<^verbatim>\<open>TypeError\<close> at the first element that is not a string, and on a number.
\<close>

fun join_items_error :: "nat \<Rightarrow> pyval list \<Rightarrow> exn option" where
  "join_items_error k [] = None"
| "join_items_error k (PStr s # ds) = join_items_error (Suc k) ds"
| "join_items_error k (PInt i # ds) =
     Some (Exn ''TypeError'' (''sequence item '' @ str_nat k @ '': expected str instance, int found''))"

fun join_type_error :: "depends_on_value \<Rightarrow> exn option" where
  "join_type_error (Dep_list deps) = join_items_error 0 deps"
| "join_type_error (Dep_number n) =
     (if n \<noteq> 0 then Some (Exn ''TypeError'' ''can only join an iterable'') else None)"
| "join_type_error Dep_null = None"

text \<open>
  Lines 491 to 584, the prompt. Its text is not modelled. \<^verbatim>\<open>get_agent_tool_profile\<close>
  returns a profile or raises; then the text is put together, with the joins; then
  \<^verbatim>\<open>str.format\<close> runs over the finished text and returns it or raises on a brace in it,
  which is \<^verbatim>\<open>format_reply\<close>.
\<close>

definition claude_prompt :: "env \<Rightarrow> spawn_request \<Rightarrow> exn + string" where
  "claude_prompt env req =
     (case get_agent_tool_profile_reply env of
        Some e \<Rightarrow> Inl e
      | None \<Rightarrow>
          (case join_type_error (sr_depends_on req) of
             Some e \<Rightarrow> Inl e
           | None \<Rightarrow> format_reply env))"

text \<open>
  Lines 628 to 656: the checks on the launcher's result. A failed check raises; the value
  beside the exception is that of the variable \<^verbatim>\<open>claude_pid\<close> at that moment, which line
  651 assigns before the last check.
\<close>

definition validate_spawn_result :: "claude_result \<Rightarrow> exn \<times> int option + int" where
  "validate_spawn_result r =
     (if \<not> cr_success r then
        Inl (Exn ''RuntimeError'' (''Claude CLI spawn failed: '' @
               (case cr_error r of None \<Rightarrow> ''Unknown spawn error'' | Some m \<Rightarrow> m)), None)
      else case cr_process r of
        None \<Rightarrow> Inl (Exn ''RuntimeError'' ''No process object returned from spawn'', None)
      | Some p \<Rightarrow>
          (case poll p of
             Some returncode \<Rightarrow>
               Inl (Exn ''RuntimeError''
                      (''Process died immediately with code '' @ str_int returncode), None)
           | None \<Rightarrow>
               (case cr_pid r of
                  None \<Rightarrow>
                    Inl (Exn ''RuntimeError'' ''Claude CLI spawn succeeded but no PID returned'', None)
                | Some claude_pid \<Rightarrow>
                    if claude_pid = 0
                    then Inl (Exn ''RuntimeError'' ''Claude CLI spawn succeeded but no PID returned'',
                              Some claude_pid)
                    else Inr claude_pid)))"

text \<open>
  Lines 613 to 668: the launcher call and the checks, with every exception raised again as
  a \<^verbatim>\<open>RuntimeError\<close>.
\<close>

definition spawn_call :: "env \<Rightarrow> exn \<times> int option + int" where
  "spawn_call env =
     (case (case spawn_claude_reply env of
              Inl e \<Rightarrow> Inl (e, None)
            | Inr r \<Rightarrow> validate_spawn_result r) of
        Inl (spawn_error, claude_pid) \<Rightarrow>
          Inl (Exn ''RuntimeError''
                 (''Spawn operation failed: '' @ exn_type spawn_error @ '': '' @ exn_msg spawn_error),
               claude_pid)
      | Inr claude_pid \<Rightarrow> Inr claude_pid)"

definition or_empty :: "(string \<times> cval) list option \<Rightarrow> (string \<times> cval) list" where
  "or_empty parsed_configuration =
     (case parsed_configuration of None \<Rightarrow> [] | Some c \<Rightarrow> c)"

definition payload :: "spawn_request \<Rightarrow> string \<Rightarrow> int option \<Rightarrow> execution_info \<Rightarrow> bool option \<Rightarrow>
    string \<Rightarrow> spawn_payload" where
  "payload req a_id claude_pid execution_info dependency_info created_at =
     \<lparr>sp_agent_id = a_id, sp_agent_type = sr_agent_type req,
      sp_agent_name = sr_agent_type req @ ''-agent'',
      sp_repository_path = sr_repository_path req,
      sp_task_description = sr_task_description req,
      sp_auto_execute = sr_auto_execute req,
      sp_claude_pid = claude_pid,
      sp_execution_info = execution_info,
      sp_dependency_info = dependency_info,
      sp_coordination_room = room_name_of req a_id,
      sp_created_at = created_at\<rparr>"

text \<open>Lines 670 to 727: after a launch that passed the checks.\<close>

definition spawn_succeeded :: "env \<Rightarrow> spawn_request \<Rightarrow> (string \<times> cval) list option \<Rightarrow> string \<Rightarrow>
    bool option \<Rightarrow> int \<Rightarrow> world \<Rightarrow> spawn_result \<times> world" where
  "spawn_succeeded env req parsed_configuration a_id dependency_info claude_pid w =
     (let room_name = room_name_of req a_id;
          execution_info = Spawned claude_pid (sr_foundation_session_id req) room_name (now_execution env);
          updated_config = AList.merge (or_empty parsed_configuration)
            [(''claude_pid'', VInt claude_pid),
             (''coordination_room'', VStr room_name),
             (''foundation_session_id'', VStr (sr_foundation_session_id req)),
             (''dependencies'', dep_cval (sr_depends_on req)),
             (''task_description'', VStr (sr_task_description req)),
             (''spawn_success'', VBool True)];
          w1 = (case update_agent_status_reply env of
                  None \<Rightarrow> update_agent_status a_id
                            (if \<not> truthy (sr_depends_on req) then ACTIVE else IDLE) updated_config w
                | Some status_error \<Rightarrow> w);
          w2 = (case update_agent_pid_reply env of
                  None \<Rightarrow> update_agent_pid a_id claude_pid w1
                | Some pid_error \<Rightarrow> w1)
      in (Success_result (payload req a_id (Some claude_pid) execution_info dependency_info
            (now_return env)), w2))"

text \<open>
  Lines 729 to 775, the handler of a failed spawn, and then the \<^verbatim>\<open>return\<close> of line 777,
  which this path reaches as well. \<^verbatim>\<open>claude_pid\<close> is the variable of that name as the
  failure left it: \<^verbatim>\<open>None\<close>, or the launcher's 0.
\<close>

definition spawn_failed :: "env \<Rightarrow> spawn_request \<Rightarrow> (string \<times> cval) list option \<Rightarrow> string \<Rightarrow>
    bool option \<Rightarrow> exn \<Rightarrow> int option \<Rightarrow> world \<Rightarrow> spawn_result \<times> world" where
  "spawn_failed env req parsed_configuration a_id dependency_info e claude_pid w =
     (let room_name = room_name_of req a_id;
          execution_info = Spawn_failed (''Claude spawn failed: '' @ exn_msg e) (exn_type e)
                             (now_execution env);
          failed_config = AList.merge (or_empty parsed_configuration)
            [(''spawn_error'', VStr (exn_msg e)),
             (''coordination_room'', VStr room_name),
             (''foundation_session_id'', VStr (sr_foundation_session_id req)),
             (''dependencies'', dep_cval (sr_depends_on req)),
             (''task_description'', VStr (sr_task_description req)),
             (''spawn_success'', VBool False)];
          w1 = (case update_agent_status_reply env of
                  None \<Rightarrow> update_agent_status a_id TERMINATED failed_config w
                | Some status_error \<Rightarrow> w)
      in (Success_result (payload req a_id claude_pid execution_info dependency_info
            (now_return env)), w1))"

text \<open>The call of \<^verbatim>\<open>spawn_claude_with_profile\<close> (line 614), entered in the world.\<close>

definition launcher_called :: "spawn_request \<Rightarrow> world \<Rightarrow> world" where
  "launcher_called req w =
     w\<lparr>launches := launches w @
        [\<lparr>lc_workFolder = sr_repository_path req,
          lc_agent_type = sr_agent_type req,
          lc_session_id = (if sr_foundation_session_id req \<noteq> []
                           then Some (sr_foundation_session_id req) else None)\<rparr>]\<rparr>"

text \<open>Lines 462 to 775: the steps taken when \<^verbatim>\<open>auto_execute\<close> is true.\<close>

definition execute_agent :: "env \<Rightarrow> spawn_request \<Rightarrow> (string \<times> cval) list option \<Rightarrow> string \<Rightarrow>
    bool option \<Rightarrow> world \<Rightarrow> spawn_result \<times> world" where
  "execute_agent env req parsed_configuration a_id dependency_info w =
     (if \<not> spawn_claude_sync_available env then
        (Error_result ''SPAWN_FUNCTION_UNAVAILABLE''
           ''spawn_claude_sync function not available due to import failure'', w)
      else
        let room_name = room_name_of req a_id in
        case (if sr_coordination_room req \<noteq> [] then
                (case join_room_reply env of
                   None \<Rightarrow> Inr (w\<lparr>rooms_joined := rooms_joined w @ [(room_name, a_id)]\<rparr>)
                 | Some e \<Rightarrow> Inr w)
              else
                (case create_room_reply env of
                   None \<Rightarrow> Inr (w\<lparr>rooms_created := rooms_created w @ [room_name]\<rparr>)
                 | Some e \<Rightarrow> Inl e)) of
          Inl e \<Rightarrow> (Error_result ''SPAWN_AGENT_FAILED'' (exn_msg e), w)
        | Inr w1 \<Rightarrow>
            (case claude_prompt env req of
               Inl e \<Rightarrow> (Error_result ''SPAWN_AGENT_FAILED'' (exn_msg e), w1)
             | Inr prompt \<Rightarrow>
                 (case import_reply env of
                    Some e \<Rightarrow> spawn_failed env req parsed_configuration a_id dependency_info e None w1
                  | None \<Rightarrow>
                      (case spawn_call env of
                         Inl (e, claude_pid) \<Rightarrow>
                           spawn_failed env req parsed_configuration a_id dependency_info e claude_pid
                             (launcher_called req w1)
                       | Inr claude_pid \<Rightarrow>
                           spawn_succeeded env req parsed_configuration a_id dependency_info
                             claude_pid (launcher_called req w1)))))"

text \<open>
  Lines 429 to 794, for a request whose \<^verbatim>\<open>depends_on\<close> is no longer \<^verbatim>\<open>None\<close>. An exception
  that no inner handler catches reaches the handler of line 792. \<^verbatim>\<open>except ValueError\<close>
  around the parser is the test on the name of the exception.
\<close>

definition spawn_steps :: "env \<Rightarrow> spawn_request \<Rightarrow> world \<Rightarrow> spawn_result \<times> world" where
  "spawn_steps env req w =
     (case parse_ai_json_reply env of
        Inl e \<Rightarrow>
          if exn_type e = ''ValueError''
          then (Error_result ''INVALID_CONFIGURATION'' (exn_msg e), w)
          else (Error_result ''SPAWN_AGENT_FAILED'' (exn_msg e), w)
      | Inr parsed_configuration \<Rightarrow>
          (case create_agent_reply env of
             Inl e \<Rightarrow> (Error_result ''SPAWN_AGENT_FAILED'' (exn_msg e), w)
           | Inr (Rejected err) \<Rightarrow>
               (Error_result ''AGENT_DB_CREATION_FAILED''
                  (case err of None \<Rightarrow> ''Unknown error'' | Some m \<Rightarrow> m), w)
           | Inr (Created a_id) \<Rightarrow>
               (case dependency_step env (sr_depends_on req) of
                  Inl e \<Rightarrow>
                    (Error_result ''SPAWN_AGENT_FAILED'' (exn_msg e),
                     create_agent a_id (sr_agent_type req) (sr_repository_path req)
                       (sr_capabilities req) parsed_configuration w)
                | Inr dependency_info \<Rightarrow>
                    if sr_auto_execute req
                    then execute_agent env req parsed_configuration a_id dependency_info
                           (create_agent a_id (sr_agent_type req) (sr_repository_path req)
                              (sr_capabilities req) parsed_configuration w)
                    else (Success_result (payload req a_id None No_execution dependency_info
                            (now_return env)),
                          create_agent a_id (sr_agent_type req) (sr_repository_path req)
                            (sr_capabilities req) parsed_configuration w))))"

definition spawn_single_agent :: "env \<Rightarrow> spawn_request \<Rightarrow> world \<Rightarrow> spawn_result \<times> world" where
  "spawn_single_agent env req w =
     spawn_steps env (req\<lparr>sr_depends_on := depends_or_empty (sr_depends_on req)\<rparr>) w"

subsection \<open>\<^verbatim>\<open>get_agent_status\<close> and \<^verbatim>\<open>terminate_agent\<close>\<close>

text \<open>
  What \<^verbatim>\<open>psutil.Process(claude_pid)\<close> and \<^verbatim>\<open>is_running()\<close> give for a process id: running
  or not, one of the two exceptions the code catches, or another exception.
\<close>

datatype probe_reply = Is_running | Not_running | NoSuchProcess | AccessDenied | Probe_raised exn

text \<open>
  The dictionary returned: an error, or \<^verbatim>\<open>{"success": True, "agent": result}\<close>, where
  \<^verbatim>\<open>result\<close> is the record read, with its \<^verbatim>\<open>status\<close> entry overwritten and a
  \<^verbatim>\<open>process_status\<close> entry added when the process was probed.
\<close>

datatype status_result =
    Status_error string string
  | Status_ok (st_agent: agent) (st_process_status: "string option")

text \<open>
  Lines 378 to 380, and again 383 to 385: the result is marked completed and
  \<^verbatim>\<open>AgentService.complete_agent\<close> is awaited. \<^verbatim>\<open>complete_agent_reply\<close> is what that call
  does: it returns (\<^verbatim>\<open>None\<close>), having made its change, or it raises, and then the handler
  of line 389 answers and nothing is stored.
\<close>

definition process_completed :: "agent \<Rightarrow> exn option \<Rightarrow> string \<Rightarrow> world \<Rightarrow> status_result \<times> world" where
  "process_completed result complete_agent_reply a_id w =
     (case complete_agent_reply of
        None \<Rightarrow>
          (Status_ok (result\<lparr>ag_status := COMPLETED\<rparr>) (Some ''completed''), complete_agent a_id w)
      | Some e \<Rightarrow> (Status_error ''GET_STATUS_FAILED'' (exn_msg e), w))"

definition get_agent_status :: "(int \<Rightarrow> probe_reply) \<Rightarrow> exn option \<Rightarrow> string \<Rightarrow> world \<Rightarrow>
    status_result \<times> world" where
  "get_agent_status probe complete_agent_reply a_id w =
     (case get_agent_by_id a_id w of
        None \<Rightarrow> (Status_error ''AGENT_NOT_FOUND'' ''Agent not found'', w)
      | Some result \<Rightarrow>
          (case ag_claude_pid result of
             None \<Rightarrow> (Status_ok result None, w)
           | Some claude_pid \<Rightarrow>
               if claude_pid = 0 then (Status_ok result None, w)
               else
                 (case probe claude_pid of
                    Is_running \<Rightarrow>
                      (Status_ok (result\<lparr>ag_status := ACTIVE\<rparr>) (Some ''running''),
                       w\<lparr>probes := probes w @ [claude_pid]\<rparr>)
                  | Not_running \<Rightarrow>
                      process_completed result complete_agent_reply a_id
                        (w\<lparr>probes := probes w @ [claude_pid]\<rparr>)
                  | NoSuchProcess \<Rightarrow>
                      process_completed result complete_agent_reply a_id
                        (w\<lparr>probes := probes w @ [claude_pid]\<rparr>)
                  | AccessDenied \<Rightarrow>
                      process_completed result complete_agent_reply a_id
                        (w\<lparr>probes := probes w @ [claude_pid]\<rparr>)
                  | Probe_raised e \<Rightarrow>
                      (Status_error ''GET_STATUS_FAILED'' (exn_msg e),
                       w\<lparr>probes := probes w @ [claude_pid]\<rparr>))))"

datatype terminate_result =
    Terminate_error string string
  | Terminated (tr_agent_id: string) (tr_reason: string) (tr_status: string)

text \<open>
  \<^verbatim>\<open>AgentService.terminate_agent\<close> is the parameter \<^verbatim>\<open>service\<close>: any function of the agent
  id and the world that answers true or false, or raises. It is called with the agent id
  alone; \<^verbatim>\<open>reason\<close> goes into the answer.
\<close>

definition terminate_agent :: "(string \<Rightarrow> world \<Rightarrow> (exn + bool) \<times> world) \<Rightarrow> string \<Rightarrow> string \<Rightarrow>
    world \<Rightarrow> terminate_result \<times> world" where
  "terminate_agent service a_id reason w =
     (case service a_id w of
        (Inr success, w1) \<Rightarrow>
          if success then (Terminated a_id reason ''terminated'', w1)
          else (Terminate_error ''AGENT_NOT_FOUND'' ''Agent not found or already terminated'', w1)
      | (Inl e, w1) \<Rightarrow> (Terminate_error ''TERMINATE_FAILED'' (exn_msg e), w1))"

subsection \<open>\<^verbatim>\<open>spawn_agents_batch\<close>\<close>

datatype coordination_mode = Parallel | Sequential | Dependency_based

text \<open>
  One element of \<^verbatim>\<open>results\<close>: an exception (kept by \<^verbatim>\<open>except Exception as e\<close> or by
  \<^verbatim>\<open>gather(..., return_exceptions=True)\<close>), with its \<^verbatim>\<open>str\<close>, or the dictionary returned.
\<close>

datatype outcome = Raised string | Returned spawn_result

datatype error_value = Error_text string | Error_dict string string

record failed_agent =
  fa_index :: nat
  fa_agent_config :: agent_config
  fa_error :: error_value

record batch_result =
  br_total_requested :: nat
  br_successful :: nat
  br_failed :: nat
  br_successful_agents :: "spawn_payload list"
  br_failed_agents :: "failed_agent list"
  br_foundation_session_id :: "string option"
  br_coordination_room :: "string option"

datatype batch_reply = Batch_error string string | Batch_ok batch_result

text \<open>The arguments of each \<^verbatim>\<open>_spawn_single_agent\<close> call of the batch (lines 162 to 172).\<close>

definition request_of :: "string \<Rightarrow> string option \<Rightarrow> string option \<Rightarrow> agent_config \<Rightarrow> spawn_request" where
  "request_of repository_path foundation_session_id coordination_room c =
     \<lparr>sr_agent_type = agent_type c,
      sr_repository_path = repository_path,
      sr_task_description = task_description c,
      sr_capabilities = capabilities c,
      sr_initial_context = initial_context c,
      sr_configuration = configuration c,
      sr_depends_on = depends_on c,
      sr_foundation_session_id = (case foundation_session_id of None \<Rightarrow> [] | Some s \<Rightarrow> s),
      sr_auto_execute = True,
      sr_coordination_room = (case coordination_room of None \<Rightarrow> [] | Some r \<Rightarrow> r)\<rparr>"

text \<open>
  The spawn of one request of a batch, when the collaborators answer the call for request
  \<^verbatim>\<open>c\<close> as \<^verbatim>\<open>envs c\<close> says. \<^verbatim>\<open>_spawn_single_agent\<close> catches every \<^verbatim>\<open>Exception\<close>, so the
  outcome is a dictionary.
\<close>

definition spawn_in_batch :: "(agent_config \<Rightarrow> env) \<Rightarrow> string \<Rightarrow> string option \<Rightarrow> string option \<Rightarrow>
    agent_config \<Rightarrow> world \<Rightarrow> outcome \<times> world" where
  "spawn_in_batch envs repository_path foundation_session_id coordination_room c w =
     (case spawn_single_agent (envs c)
             (request_of repository_path foundation_session_id coordination_room c) w of
        (result, w1) \<Rightarrow> (Returned result, w1))"

text \<open>
  The spawns of a list of requests, one outcome each, in the order of the list: the
  \<^verbatim>\<open>for\<close> loop of sequential mode, and \<^verbatim>\<open>asyncio.gather\<close>, which returns the outcomes in
  the order of its tasks whatever the order in which they finish. The spawn function is a
  parameter, a function of the request and of a state of any type, so that an outcome may
  also be an exception.
\<close>

fun spawn_each :: "(agent_config \<Rightarrow> 'w \<Rightarrow> outcome \<times> 'w) \<Rightarrow> agent_config list \<Rightarrow> 'w \<Rightarrow> outcome list \<times> 'w" where
  "spawn_each spawn [] w = ([], w)"
| "spawn_each spawn (c # cs) w =
     (case spawn c w of
        (result, w1) \<Rightarrow>
          (case spawn_each spawn cs w1 of
             (results, w2) \<Rightarrow> (result # results, w2)))"

text \<open>
  Lines 181 to 201: the waves one after the other, \<^verbatim>\<open>results.extend(wave_results)\<close> after
  each.
\<close>

fun spawn_waves :: "(agent_config \<Rightarrow> 'w \<Rightarrow> outcome \<times> 'w) \<Rightarrow> agent_config list list \<Rightarrow>
    outcome list \<Rightarrow> 'w \<Rightarrow> outcome list \<times> 'w" where
  "spawn_waves spawn [] results w = (results, w)"
| "spawn_waves spawn (wave # waves) results w =
     (case spawn_each spawn wave w of
        (wave_results, w1) \<Rightarrow> spawn_waves spawn waves (results @ wave_results) w1)"

text \<open>
  Lines 228 to 242. \<^verbatim>\<open>agents_config[i]\<close> raises \<^verbatim>\<open>IndexError\<close> out of range, which
  the handler of line 262 turns into \<^verbatim>\<open>BATCH_SPAWN_FAILED\<close>.
\<close>

fun process_results :: "agent_config list \<Rightarrow> (nat \<times> outcome) list \<Rightarrow>
    spawn_payload list \<times> failed_agent list \<Rightarrow> exn + spawn_payload list \<times> failed_agent list" where
  "process_results agents_config [] acc = Inr acc"
| "process_results agents_config ((i, Raised text) # rest) (successful_agents, failed_agents) =
     (if i < length agents_config
      then process_results agents_config rest
             (successful_agents,
              failed_agents @ [\<lparr>fa_index = i, fa_agent_config = agents_config ! i,
                                 fa_error = Error_text text\<rparr>])
      else Inl (Exn ''IndexError'' ''list index out of range''))"
| "process_results agents_config ((i, Returned (Success_result p)) # rest)
       (successful_agents, failed_agents) =
     process_results agents_config rest (successful_agents @ [p], failed_agents)"
| "process_results agents_config ((i, Returned (Error_result code message)) # rest)
       (successful_agents, failed_agents) =
     (if i < length agents_config
      then process_results agents_config rest
             (successful_agents,
              failed_agents @ [\<lparr>fa_index = i, fa_agent_config = agents_config ! i,
                                 fa_error = Error_dict code message\<rparr>])
      else Inl (Exn ''IndexError'' ''list index out of range''))"

text \<open>
  Lines 156 to 222. In dependency mode \<^verbatim>\<open>_organize_by_dependencies\<close> runs first, and when
  it raises no request has been spawned.
\<close>

definition run_mode :: "(agent_config \<Rightarrow> 'w \<Rightarrow> outcome \<times> 'w) \<Rightarrow> agent_config list \<Rightarrow>
    coordination_mode \<Rightarrow> 'w \<Rightarrow> exn + outcome list \<times> 'w" where
  "run_mode spawn agents_config mode w =
     (case mode of
        Sequential \<Rightarrow> Inr (spawn_each spawn agents_config w)
      | Dependency_based \<Rightarrow>
          (case organize_by_dependencies agents_config of
             Inl e \<Rightarrow> Inl e
           | Inr dependency_waves \<Rightarrow> Inr (spawn_waves spawn dependency_waves [] w))
      | Parallel \<Rightarrow> Inr (spawn_each spawn agents_config w))"

text \<open>
  The batch, for a list of requests that pass the checks of lines 139 to 153: the parsing
  of \<^verbatim>\<open>agents\<close> and the checks that each entry is a dictionary with its two required keys
  are in the types. An exception reaches the handler of line 262. \<^verbatim>\<open>max_concurrent\<close> sets
  the size of the semaphores only; see the next subsection.
\<close>

definition spawn_agents_batch :: "(agent_config \<Rightarrow> 'w \<Rightarrow> outcome \<times> 'w) \<Rightarrow> agent_config list \<Rightarrow>
    string option \<Rightarrow> coordination_mode \<Rightarrow> string option \<Rightarrow> 'w \<Rightarrow> batch_reply \<times> 'w" where
  "spawn_agents_batch spawn agents_config foundation_session_id mode coordination_room w =
     (if agents_config = [] then (Batch_error ''EMPTY_AGENTS_LIST'' ''No agents specified'', w)
      else
        (case run_mode spawn agents_config mode w of
           Inl e \<Rightarrow> (Batch_error ''BATCH_SPAWN_FAILED'' (exn_msg e), w)
         | Inr (results, w1) \<Rightarrow>
             (case process_results agents_config (enumerate 0 results) ([], []) of
                Inl e \<Rightarrow> (Batch_error ''BATCH_SPAWN_FAILED'' (exn_msg e), w1)
              | Inr (successful_agents, failed_agents) \<Rightarrow>
                  (Batch_ok \<lparr>br_total_requested = length agents_config,
                             br_successful = length successful_agents,
                             br_failed = length failed_agents,
                             br_successful_agents = successful_agents,
                             br_failed_agents = failed_agents,
                             br_foundation_session_id = foundation_session_id,
                             br_coordination_room = coordination_room\<rparr>, w1))))"

subsection \<open>The semaphores of \<^verbatim>\<open>spawn_agents_batch\<close>\<close>

text \<open>
  Each task of a \<^verbatim>\<open>gather\<close> is \<^verbatim>\<open>async with semaphore: await _spawn_single_agent(...)\<close>:
  it waits for the semaphore, holds one unit of it for as long as its spawn call is in
  flight, and gives the unit back. A state is the value of the semaphore and the phase of
  each task; \<^verbatim>\<open>asyncio.Semaphore\<close> lets a task in only while its value is positive.
\<close>

datatype phase = Waiting | In_flight | Done

record gate =
  permits :: nat
  phases :: "phase list"

inductive step :: "gate \<Rightarrow> gate \<Rightarrow> bool" where
  acquire: "i < length (phases g) \<Longrightarrow> phases g ! i = Waiting \<Longrightarrow> 0 < permits g \<Longrightarrow>
            step g (g\<lparr>permits := permits g - 1, phases := (phases g)[i := In_flight]\<rparr>)"
| release: "i < length (phases g) \<Longrightarrow> phases g ! i = In_flight \<Longrightarrow>
            step g (g\<lparr>permits := permits g + 1, phases := (phases g)[i := Done]\<rparr>)"

definition in_flight :: "gate \<Rightarrow> nat" where
  "in_flight g = length (filter (\<lambda>p. p = In_flight) (phases g))"

text \<open>\<^verbatim>\<open>asyncio.Semaphore(value)\<close> and one task for each request, none started.\<close>

definition gather_start :: "nat \<Rightarrow> agent_config list \<Rightarrow> gate" where
  "gather_start value cfgs = \<lparr>permits = value, phases = replicate (length cfgs) Waiting\<rparr>"

text \<open>Line 205, parallel mode: \<^verbatim>\<open>asyncio.Semaphore(max_concurrent)\<close>.\<close>

definition parallel_gate :: "nat \<Rightarrow> agent_config list \<Rightarrow> gate" where
  "parallel_gate max_concurrent agents_config = gather_start max_concurrent agents_config"

text \<open>Line 183, each wave: \<^verbatim>\<open>asyncio.Semaphore(min(max_concurrent, len(wave)))\<close>.\<close>

definition wave_gate :: "nat \<Rightarrow> agent_config list \<Rightarrow> gate" where
  "wave_gate max_concurrent wave = gather_start (min max_concurrent (length wave)) wave"

text \<open>
  Dependency mode: the state is the number of the wave being spawned and its gate. The
  \<^verbatim>\<open>await\<close> of a wave's \<^verbatim>\<open>gather\<close> returns when all its tasks are done, and only then does
  the loop go on to the next wave, with a semaphore of its own.
\<close>

inductive wave_step :: "nat \<Rightarrow> agent_config list list \<Rightarrow> nat \<times> gate \<Rightarrow> nat \<times> gate \<Rightarrow> bool"
  for max_concurrent :: nat and waves :: "agent_config list list" where
  in_wave: "step g g' \<Longrightarrow> wave_step max_concurrent waves (k, g) (k, g')"
| next_wave: "list_all (\<lambda>p. p = Done) (phases g) \<Longrightarrow> Suc k < length waves \<Longrightarrow>
              wave_step max_concurrent waves (k, g) (Suc k, wave_gate max_concurrent (waves ! Suc k))"

subsection \<open>Notions used in the properties\<close>








text \<open>Dependency mode starts with the first wave and its semaphore.\<close>

definition wave_start :: "nat \<Rightarrow> agent_config list list \<Rightarrow> nat \<times> gate" where
  "wave_start max_concurrent waves = (0, wave_gate max_concurrent (waves ! 0))"

subsection \<open>Inputs for the examples\<close>

definition example_request :: "string \<Rightarrow> pyval list \<Rightarrow> agent_config" where
  "example_request a_type deps =
     \<lparr>agent_type = a_type, task_description = ''build the feature'', capabilities = [],
      initial_context = [], configuration = None, depends_on = Dep_list deps, agent_id = None\<rparr>"


definition example_world :: world where
  "example_world = \<lparr>agents = Map.empty, launches = [], rooms_created = [], rooms_joined = [],
                     probes = []\<rparr>"

definition example_env :: "string \<Rightarrow> env" where
  "example_env new_id =
     \<lparr>parse_ai_json_reply = Inr None,
      create_agent_reply = Inr (Created new_id),
      setup_dependency_monitoring_reply = Inr True,
      spawn_claude_sync_available = True,
      join_room_reply = None,
      create_room_reply = None,
      get_agent_tool_profile_reply = None,
      format_reply = Inr ''prompt'',
      import_reply = None,
      spawn_claude_reply = Inr \<lparr>cr_success = True, cr_error = None,
                                cr_process = Some (Process None), cr_pid = Some 4242\<rparr>,
      update_agent_status_reply = None,
      update_agent_pid_reply = None,
      now_execution = ''2025-01-01T00:00:00+00:00'',
      now_return = ''2025-01-01T00:00:01+00:00''\<rparr>"

text \<open>The batch of the spec's example.\<close>

definition example_batch :: "agent_config list" where
  "example_batch =
     [example_request ''A'' [], example_request ''B'' [PInt 0], example_request ''C'' [PStr ''zzz'']]"

text \<open>The store refuses to create the record, and the store raises.\<close>

definition refusing_env :: env where
  "refusing_env =
     (example_env ''agent-0001'')\<lparr>create_agent_reply := Inr (Rejected (Some ''database is locked''))\<rparr>"

definition unavailable_env :: env where
  "unavailable_env =
     (example_env ''agent-0001'')
       \<lparr>create_agent_reply := Inl (Exn ''OperationalError'' ''unable to open database file'')\<rparr>"

definition example_envs :: "agent_config \<Rightarrow> env" where
  "example_envs c =
     (if agent_type c = ''backend'' then refusing_env
      else example_env (''agent-'' @ agent_type c))"

definition example_spawn_request :: spawn_request where
  "example_spawn_request =
     \<lparr>sr_agent_type = ''backend'', sr_repository_path = ''/repo'',
      sr_task_description = ''build the feature'', sr_capabilities = [],
      sr_initial_context = [], sr_configuration = None,
      sr_depends_on = Dep_list [PStr ''agent-0000''], sr_foundation_session_id = [],
      sr_auto_execute = True, sr_coordination_room = []\<rparr>"

definition example_agent :: agent where
  "example_agent =
     \<lparr>ag_agent_type = ''backend'', ag_repository_path = ''/repo'', ag_capabilities = [],
      ag_configuration = [], ag_status = ACTIVE, ag_claude_pid = Some 4242\<rparr>"

definition example_store :: world where
  "example_store = example_world\<lparr>agents := [''agent-0001'' \<mapsto> example_agent]\<rparr>"



text \<open>The launch succeeds and the store then refuses the status update.\<close>

definition unrecorded_env :: env where
  "unrecorded_env =
     (example_env ''agent-0001'')
       \<lparr>update_agent_status_reply := Some (Exn ''OperationalError'' ''database is locked'')\<rparr>"

section \<open>Properties\<close>

subsection \<open>The outcomes of a batch\<close>













text \<open>
  Claim C2. The batch of the spec's example: A without dependency, B depending on A by
  index 0, C depending on the nonexistent id \<^verbatim>\<open>zzz\<close>. B is placed in the pass that places
  A, so the waves are \<^verbatim>\<open>[[A, B], [C]]\<close>: B is in the wave of the request it depends on.
\<close>

theorem organize_by_dependencies_spec_example:
  "organize_by_dependencies example_batch =
     Inr [[example_request ''A'' [], example_request ''B'' [PInt 0]],
          [example_request ''C'' [PStr ''zzz'']]] \<and>
   organize_ix example_batch = [[0, 1], [2]]"
  by code_simp

text \<open>
  Claim C3. A batch of two requests in dependency mode: the first depends on the second,
  so the second is spawned first. The record of the first cannot be created; the second is
  spawned. The one entry of \<^verbatim>\<open>failed_agents\<close> carries index 1 and the configuration of the
  second request, the one that succeeded.
\<close>

theorem failed_agents_wrong_request:
  "(case fst (spawn_agents_batch (spawn_in_batch example_envs ''/repo'' None None)
               [example_request ''backend'' [PStr ''1''], example_request ''frontend'' []]
               None Dependency_based None example_world) of
      Batch_ok r \<Rightarrow>
        map (\<lambda>f. (fa_index f, agent_type (fa_agent_config f), fa_error f)) (br_failed_agents r)
          = [(1, ''frontend'', Error_dict ''AGENT_DB_CREATION_FAILED'' ''database is locked'')] \<and>
        map sp_agent_type (br_successful_agents r) = [''frontend'']
    | Batch_error code message \<Rightarrow> False)"
  by code_simp

subsection \<open>The spawn of one agent\<close>

text \<open>
  Claim C6. The creation of the record fails in one of two ways. When \<^verbatim>\<open>create_agent\<close>
  answers without success, \<^verbatim>\<open>_spawn_single_agent\<close> returns at once the error of code
  \<^verbatim>\<open>AGENT_DB_CREATION_FAILED\<close>, with the store's message or \<^verbatim>\<open>Unknown error\<close>. When
  \<^verbatim>\<open>create_agent\<close> raises, the handler of line 792 returns the error of code
  \<^verbatim>\<open>SPAWN_AGENT_FAILED\<close> with the text of the exception. Either way the world is left as it
  was: no record, no room, no launcher call.
\<close>

theorem record_creation_failure:
  assumes "parse_ai_json_reply env = Inr parsed_configuration"
  shows "(create_agent_reply env = Inr (Rejected err) \<longrightarrow>
            spawn_single_agent env req w =
              (Error_result ''AGENT_DB_CREATION_FAILED''
                 (case err of None \<Rightarrow> ''Unknown error'' | Some m \<Rightarrow> m), w)) \<and>
         (create_agent_reply env = Inl e \<longrightarrow>
            spawn_single_agent env req w = (Error_result ''SPAWN_AGENT_FAILED'' (exn_msg e), w))"
  using assms by (simp add: spawn_single_agent_def spawn_steps_def)

theorem record_creation_failure_witness:
  "parse_ai_json_reply refusing_env = Inr None \<and>
   create_agent_reply refusing_env = Inr (Rejected (Some ''database is locked'')) \<and>
   spawn_single_agent refusing_env example_spawn_request example_world =
     (Error_result ''AGENT_DB_CREATION_FAILED'' ''database is locked'', example_world) \<and>
   parse_ai_json_reply unavailable_env = Inr None \<and>
   create_agent_reply unavailable_env = Inl (Exn ''OperationalError'' ''unable to open database file'') \<and>
   spawn_single_agent unavailable_env example_spawn_request example_world =
     (Error_result ''SPAWN_AGENT_FAILED'' ''unable to open database file'', example_world)"
  using record_creation_failure [where env = refusing_env and parsed_configuration = None
      and err = "Some ''database is locked''" and req = example_spawn_request and w = example_world]
    record_creation_failure [where env = unavailable_env and parsed_configuration = None
      and e = "Exn ''OperationalError'' ''unable to open database file''"
      and req = example_spawn_request and w = example_world]
  by (simp add: example_env_def refusing_env_def unavailable_env_def)

text \<open>
  The store refuses the write: the code of the error is \<^verbatim>\<open>AGENT_DB_CREATION_FAILED\<close>, not
  \<^verbatim>\<open>RECORD_CREATION_FAILED\<close>. The store cannot be reached and \<^verbatim>\<open>create_agent\<close> raises: the code
  is \<^verbatim>\<open>SPAWN_AGENT_FAILED\<close>. No launcher call in either case.
\<close>

theorem record_creation_failure_code:
  "fst (spawn_single_agent refusing_env example_spawn_request example_world)
     = Error_result ''AGENT_DB_CREATION_FAILED'' ''database is locked'' \<and>
   error_code (fst (spawn_single_agent refusing_env example_spawn_request example_world))
     \<noteq> ''RECORD_CREATION_FAILED'' \<and>
   fst (spawn_single_agent unavailable_env example_spawn_request example_world)
     = Error_result ''SPAWN_AGENT_FAILED'' ''unable to open database file'' \<and>
   snd (spawn_single_agent unavailable_env example_spawn_request example_world) = example_world"
  by (simp add: spawn_single_agent_def spawn_steps_def example_env_def refusing_env_def
      unavailable_env_def)



lemma agents_launcher_called [simp]: "agents (launcher_called req w) = agents w"
  by (simp add: launcher_called_def)


lemma agents_create_agent:
  "agents (create_agent a_id t repo caps cfg w) a_id =
     Some \<lparr>ag_agent_type = t, ag_repository_path = repo, ag_capabilities = caps,
           ag_configuration = or_empty cfg, ag_status = PENDING, ag_claude_pid = None\<rparr>"
  by (simp add: create_agent_def or_empty_def)

lemma launches_create_agent [simp]: "launches (create_agent a_id t repo caps cfg w) = launches w"
  by (simp add: create_agent_def)

lemma launches_update_agent_status [simp]:
  "launches (update_agent_status a_id st cfg w) = launches w"
  by (simp add: update_agent_status_def split: option.splits)





lemma truthy_depends_or_empty [simp]: "truthy (depends_or_empty d) = truthy d"
  by (cases d) simp_all

lemma join_type_error_depends_or_empty [simp]:
  "join_type_error (depends_or_empty d) = join_type_error d"
  by (cases d) simp_all

lemma claude_prompt_depends_or_empty [simp]:
  "claude_prompt env (req\<lparr>sr_depends_on := depends_or_empty (sr_depends_on req)\<rparr>) = claude_prompt env req"
  by (simp add: claude_prompt_def split: option.splits)

lemma dependency_step_depends_or_empty [simp]:
  "dependency_step env (depends_or_empty d) = dependency_step env d"
  by (simp add: dependency_step_def)

lemma payload_depends_on [simp]:
  "payload (req\<lparr>sr_depends_on := d\<rparr>) a_id v ei di t = payload req a_id v ei di t"
  by (simp add: payload_def room_name_of_def)




lemma spawn_failed_info:
  "spawn_failed env req cfg a_id di e v w = (Success_result p, w') \<Longrightarrow>
   \<exists>x y z. sp_execution_info p = Spawn_failed x y z"
  by (auto simp: spawn_failed_def Let_def payload_def)

lemma spawn_succeeded_store:
  assumes "spawn_succeeded env req cfg a_id di claude_pid w = (Success_result p, w')"
    and "update_agent_status_reply env = None"
    and "agents w a_id = Some a0"
  shows "sp_agent_id p = a_id \<and> sp_claude_pid p = Some claude_pid \<and>
         sp_coordination_room p = room_name_of req a_id \<and>
         sp_execution_info p = Spawned claude_pid (sr_foundation_session_id req)
                                 (room_name_of req a_id) (now_execution env) \<and>
         (\<exists>a. get_agent_by_id a_id w' = Some a \<and>
              ag_status a = (if \<not> truthy (sr_depends_on req) then ACTIVE else IDLE) \<and>
              map_of (ag_configuration a) ''claude_pid'' = Some (VInt claude_pid) \<and>
              map_of (ag_configuration a) ''coordination_room'' = Some (VStr (room_name_of req a_id)) \<and>
              map_of (ag_configuration a) ''dependencies'' = Some (dep_cval (sr_depends_on req)))"
  using assms
  by (auto simp: spawn_succeeded_def Let_def payload_def update_agent_status_def
      update_agent_pid_def get_agent_by_id_def AList.merge_conv' AList.update_conv' map_add_def
      split: option.splits)

lemma execute_agent_spawned:
  assumes "execute_agent env req cfg a_id di w = (Success_result p, w')"
    and "sp_execution_info p = Spawned claude_pid session room started"
  shows "\<exists>w1 pid. spawn_succeeded env req cfg a_id di pid w1 = (Success_result p, w') \<and>
                  agents w1 = agents w"
  using assms
  by (auto simp: execute_agent_def Let_def split: if_splits option.splits sum.splits
      dest: spawn_failed_info)

lemma room_name_of_depends_on [simp]:
  "room_name_of (req\<lparr>sr_depends_on := d\<rparr>) a_id = room_name_of req a_id"
  by (simp add: room_name_of_def)

text \<open>
  Claim C8. A spawn has succeeded when the dictionary returned carries the
  \<^verbatim>\<open>execution_info\<close> of a launch that passed the checks: process id, session, room and
  start time. Then, when the store has accepted the status update, the \<^verbatim>\<open>claude_pid\<close>
  returned is that process id, the room is the coordination room returned, and the
  configuration stored for the agent holds that process id, the name of that room and the
  dependencies of the request: the list as it was given, and the empty list when the
  request gave \<^verbatim>\<open>None\<close>.
\<close>

theorem recorded_configuration_round_trip:
  assumes "spawn_single_agent env req w = (Success_result p, w')"
    and "sp_execution_info p = Spawned claude_pid session room started"
    and "update_agent_status_reply env = None"
  shows "sp_claude_pid p = Some claude_pid \<and>
         room = sp_coordination_room p \<and>
         sp_coordination_room p = room_name_of req (sp_agent_id p) \<and>
         (\<exists>a. get_agent_by_id (sp_agent_id p) w' = Some a \<and>
              map_of (ag_configuration a) ''claude_pid'' = Some (VInt claude_pid) \<and>
              map_of (ag_configuration a) ''coordination_room'' = Some (VStr (sp_coordination_room p)) \<and>
              map_of (ag_configuration a) ''dependencies'' =
                Some (dep_cval (depends_or_empty (sr_depends_on req))) \<and>
              (\<forall>deps. sr_depends_on req = Dep_list deps \<longrightarrow>
                 map_of (ag_configuration a) ''dependencies'' = Some (VList deps)))"
proof -
  define req' where "req' = req\<lparr>sr_depends_on := depends_or_empty (sr_depends_on req)\<rparr>"
  obtain cfg a_id di where top:
      "execute_agent env req' cfg a_id di
         (create_agent a_id (sr_agent_type req) (sr_repository_path req) (sr_capabilities req) cfg w)
       = (Success_result p, w')"
    using assms(1,2)
    by (auto simp: spawn_single_agent_def spawn_steps_def payload_def req'_def
        split: sum.splits create_result.splits if_splits)
  obtain w1 pid where s:
      "spawn_succeeded env req' cfg a_id di pid w1 = (Success_result p, w')"
      "agents w1 = agents (create_agent a_id (sr_agent_type req) (sr_repository_path req)
                            (sr_capabilities req) cfg w)"
    using execute_agent_spawned [OF top assms(2)] by blast
  have a0: "agents w1 a_id = Some \<lparr>ag_agent_type = sr_agent_type req,
      ag_repository_path = sr_repository_path req, ag_capabilities = sr_capabilities req,
      ag_configuration = or_empty cfg, ag_status = PENDING, ag_claude_pid = None\<rparr>"
    by (simp add: s(2) agents_create_agent)
  note r = spawn_succeeded_store [OF s(1) assms(3) a0]
  have "pid = claude_pid" "room = room_name_of req a_id" using r assms(2) by (simp_all add: req'_def)
  with r show ?thesis by (auto simp: req'_def)
qed

theorem recorded_configuration_round_trip_witness:
  "update_agent_status_reply (example_env ''agent-0001'') = None \<and>
   (\<exists>p w'. spawn_single_agent (example_env ''agent-0001'') example_spawn_request example_world
             = (Success_result p, w') \<and>
          sp_execution_info p = Spawned 4242 [] ''backend-agent-00'' ''2025-01-01T00:00:00+00:00'' \<and>
          sp_claude_pid p = Some 4242 \<and>
          (\<exists>a. get_agent_by_id (sp_agent_id p) w' = Some a \<and>
               map_of (ag_configuration a) ''claude_pid'' = Some (VInt 4242) \<and>
               map_of (ag_configuration a) ''coordination_room'' = Some (VStr (sp_coordination_room p)) \<and>
               map_of (ag_configuration a) ''dependencies'' = Some (VList [PStr ''agent-0000''])))"
proof -
  obtain p w' where e: "spawn_single_agent (example_env ''agent-0001'') example_spawn_request example_world
      = (Success_result p, w')"
     "sp_execution_info p = Spawned 4242 [] ''backend-agent-00'' ''2025-01-01T00:00:00+00:00''"
    by (simp add: spawn_single_agent_def spawn_steps_def execute_agent_def spawn_succeeded_def
        example_env_def example_spawn_request_def claude_prompt_def spawn_call_def
        validate_spawn_result_def dependency_step_def payload_def room_name_of_def Let_def)
  have u: "update_agent_status_reply (example_env ''agent-0001'') = None"
    by (simp add: example_env_def)
  have d: "sr_depends_on example_spawn_request = Dep_list [PStr ''agent-0000'']"
    by (simp add: example_spawn_request_def)
  note t = recorded_configuration_round_trip [OF e(1,2) u]
  have pid: "sp_claude_pid p = Some 4242" using t by (elim conjE)
  obtain a where a: "get_agent_by_id (sp_agent_id p) w' = Some a"
      "map_of (ag_configuration a) ''claude_pid'' = Some (VInt 4242)"
      "map_of (ag_configuration a) ''coordination_room'' = Some (VStr (sp_coordination_room p))"
      "\<forall>deps. sr_depends_on example_spawn_request = Dep_list deps \<longrightarrow>
         map_of (ag_configuration a) ''dependencies'' = Some (VList deps)"
    using t by (elim exE conjE) (rule that, assumption+)
  have dd: "map_of (ag_configuration a) ''dependencies'' = Some (VList [PStr ''agent-0000''])"
    using a(4) d by (elim allE impE) assumption+
  have x: "\<exists>a. get_agent_by_id (sp_agent_id p) w' = Some a \<and>
               map_of (ag_configuration a) ''claude_pid'' = Some (VInt 4242) \<and>
               map_of (ag_configuration a) ''coordination_room'' = Some (VStr (sp_coordination_room p)) \<and>
               map_of (ag_configuration a) ''dependencies'' = Some (VList [PStr ''agent-0000''])"
    by (rule exI [of _ a]) (intro conjI, fact a(1), fact a(2), fact a(3), fact dd)
  show ?thesis
    by (intro conjI exI [of _ p] exI [of _ w'], fact u, fact e(1), fact e(2), fact pid, fact x)
qed

text \<open>
  The store refuses the status update after the launch: the spawn still succeeds, and the
  stored configuration is the empty one the record was created with.
\<close>

theorem configuration_not_recorded:
  "(case spawn_single_agent unrecorded_env example_spawn_request example_world of
      (Success_result p, w') \<Rightarrow>
        sp_claude_pid p = Some 4242 \<and>
        sp_execution_info p = Spawned 4242 [] ''backend-agent-00'' ''2025-01-01T00:00:00+00:00'' \<and>
        (case get_agent_by_id ''agent-0001'' w' of
           Some a \<Rightarrow> ag_configuration a = [] \<and> ag_status a = PENDING \<and> ag_claude_pid a = Some 4242
         | None \<Rightarrow> False)
    | (Error_result code message, w') \<Rightarrow> False)"
  by code_simp

subsection \<open>Status reads and termination\<close>

text \<open>
  Claim C7. A status read of an agent whose recorded process id is not 0 probes that
  process; a recorded 0 is read as no process id, and the record is returned without a
  probe. When the probe finds the process not running, or raises \<^verbatim>\<open>NoSuchProcess\<close> or
  \<^verbatim>\<open>AccessDenied\<close>, the read calls \<^verbatim>\<open>complete_agent\<close>. When that call returns, the read
  reports the agent completed, and the stored status of an agent that was not in a terminal
  state is \<^verbatim>\<open>COMPLETED\<close> when the read returns; the record of an agent in a terminal state
  is left as it was. When that call raises, the read returns the error
  \<^verbatim>\<open>GET_STATUS_FAILED\<close> and the stored record is unchanged.
\<close>

theorem status_read_completes_dead_process:
  assumes "get_agent_by_id a_id w = Some a" and "ag_claude_pid a = Some claude_pid"
  shows
  "(claude_pid = 0 \<longrightarrow> get_agent_status probe complete_agent_reply a_id w = (Status_ok a None, w)) \<and>
   (claude_pid \<noteq> 0 \<longrightarrow>
      probes (snd (get_agent_status probe complete_agent_reply a_id w)) = probes w @ [claude_pid] \<and>
      (probe claude_pid = Not_running \<or> probe claude_pid = NoSuchProcess \<or>
       probe claude_pid = AccessDenied \<longrightarrow>
         (complete_agent_reply = None \<longrightarrow>
            get_agent_status probe complete_agent_reply a_id w =
              (Status_ok (a\<lparr>ag_status := COMPLETED\<rparr>) (Some ''completed''),
               complete_agent a_id (w\<lparr>probes := probes w @ [claude_pid]\<rparr>)) \<and>
            (\<not> is_terminal (ag_status a) \<longrightarrow>
               get_agent_by_id a_id (snd (get_agent_status probe complete_agent_reply a_id w)) =
                 Some (a\<lparr>ag_status := COMPLETED\<rparr>)) \<and>
            (is_terminal (ag_status a) \<longrightarrow>
               get_agent_by_id a_id (snd (get_agent_status probe complete_agent_reply a_id w)) =
                 Some a)) \<and>
         (\<forall>e. complete_agent_reply = Some e \<longrightarrow>
            get_agent_status probe complete_agent_reply a_id w =
              (Status_error ''GET_STATUS_FAILED'' (exn_msg e),
               w\<lparr>probes := probes w @ [claude_pid]\<rparr>) \<and>
            get_agent_by_id a_id (snd (get_agent_status probe complete_agent_reply a_id w)) =
              Some a)))"
  using assms
  by (cases "probe claude_pid"; cases complete_agent_reply)
     (auto simp: get_agent_status_def process_completed_def get_agent_by_id_def complete_agent_def)

theorem status_read_completes_dead_process_witness:
  "get_agent_by_id ''agent-0001'' example_store = Some example_agent \<and>
   ag_claude_pid example_agent = Some 4242 \<and> (4242::int) \<noteq> 0 \<and>
   \<not> is_terminal (ag_status example_agent) \<and>
   probes (snd (get_agent_status (\<lambda>pid. AccessDenied) None ''agent-0001'' example_store)) = [4242] \<and>
   fst (get_agent_status (\<lambda>pid. AccessDenied) None ''agent-0001'' example_store) =
     Status_ok (example_agent\<lparr>ag_status := COMPLETED\<rparr>) (Some ''completed'') \<and>
   get_agent_by_id ''agent-0001''
       (snd (get_agent_status (\<lambda>pid. AccessDenied) None ''agent-0001'' example_store))
     = Some (example_agent\<lparr>ag_status := COMPLETED\<rparr>) \<and>
   get_agent_status (\<lambda>pid. NoSuchProcess)
       (Some (Exn ''OperationalError'' ''database is locked'')) ''agent-0001'' example_store =
     (Status_error ''GET_STATUS_FAILED'' ''database is locked'',
      example_store\<lparr>probes := probes example_store @ [4242]\<rparr>)"
proof -
  have g: "get_agent_by_id ''agent-0001'' example_store = Some example_agent"
    by (simp add: get_agent_by_id_def example_store_def)
  have p: "ag_claude_pid example_agent = Some 4242" by (simp add: example_agent_def)
  have n: "\<not> is_terminal (ag_status example_agent)"
    by (simp add: example_agent_def is_terminal_def)
  have l: "probes example_store = []" by (simp add: example_store_def example_world_def)
  show ?thesis
    using status_read_completes_dead_process [OF g p, where probe = "\<lambda>pid. AccessDenied"
        and complete_agent_reply = None]
      status_read_completes_dead_process [OF g p, where probe = "\<lambda>pid. NoSuchProcess"
        and complete_agent_reply = "Some (Exn ''OperationalError'' ''database is locked'')"]
      g p n l
    by (simp add: complete_agent_def get_agent_by_id_def example_store_def example_agent_def
        example_world_def is_terminal_def)
qed

text \<open>
  The process of an active agent is not running and \<^verbatim>\<open>complete_agent\<close> raises: the read
  answers \<^verbatim>\<open>GET_STATUS_FAILED\<close> and the stored status is still \<^verbatim>\<open>ACTIVE\<close>. The recorded
  process id is 0: the read returns the record and probes nothing.
\<close>

theorem status_read_not_persisted:
  "get_agent_by_id ''agent-0001'' example_store = Some example_agent \<and>
   ag_claude_pid example_agent = Some 4242 \<and>
   ag_status example_agent = ACTIVE \<and>
   get_agent_status (\<lambda>pid. Not_running)
       (Some (Exn ''OperationalError'' ''database is locked'')) ''agent-0001'' example_store =
     (Status_error ''GET_STATUS_FAILED'' ''database is locked'',
      example_store\<lparr>probes := [4242]\<rparr>) \<and>
   get_agent_by_id ''agent-0001''
       (snd (get_agent_status (\<lambda>pid. Not_running)
               (Some (Exn ''OperationalError'' ''database is locked'')) ''agent-0001'' example_store))
     = Some example_agent \<and>
   get_agent_by_id ''agent-0001''
       (example_store\<lparr>agents := [''agent-0001'' \<mapsto> example_agent\<lparr>ag_claude_pid := Some 0\<rparr>]\<rparr>)
     = Some (example_agent\<lparr>ag_claude_pid := Some 0\<rparr>) \<and>
   get_agent_status (\<lambda>pid. Not_running) None ''agent-0001''
       (example_store\<lparr>agents := [''agent-0001'' \<mapsto> example_agent\<lparr>ag_claude_pid := Some 0\<rparr>]\<rparr>)
     = (Status_ok (example_agent\<lparr>ag_claude_pid := Some 0\<rparr>) None,
        example_store\<lparr>agents := [''agent-0001'' \<mapsto> example_agent\<lparr>ag_claude_pid := Some 0\<rparr>]\<rparr>) \<and>
   probes (example_store\<lparr>agents := [''agent-0001'' \<mapsto> example_agent\<lparr>ag_claude_pid := Some 0\<rparr>]\<rparr>) = []"
  by (simp add: get_agent_status_def process_completed_def get_agent_by_id_def example_store_def
      example_agent_def example_world_def)

text \<open>
  Claim C10. A status read of an agent without a recorded process id returns the record as
  it is stored and leaves the world as it was: no probe, no write.
\<close>

theorem status_read_without_pid:
  assumes "get_agent_by_id a_id w = Some a" and "ag_claude_pid a = None"
  shows "get_agent_status probe complete_agent_reply a_id w = (Status_ok a None, w)"
  using assms by (simp add: get_agent_status_def)

theorem status_read_without_pid_witness:
  "get_agent_by_id ''agent-0001'' (example_store\<lparr>agents := [''agent-0001'' \<mapsto> example_agent\<lparr>ag_claude_pid := None\<rparr>]\<rparr>)
     = Some (example_agent\<lparr>ag_claude_pid := None\<rparr>) \<and>
   ag_claude_pid (example_agent\<lparr>ag_claude_pid := None\<rparr>) = None \<and>
   get_agent_status (\<lambda>pid. Not_running) None ''agent-0001''
       (example_store\<lparr>agents := [''agent-0001'' \<mapsto> example_agent\<lparr>ag_claude_pid := None\<rparr>]\<rparr>)
     = (Status_ok (example_agent\<lparr>ag_claude_pid := None\<rparr>) None,
        example_store\<lparr>agents := [''agent-0001'' \<mapsto> example_agent\<lparr>ag_claude_pid := None\<rparr>]\<rparr>)"
  using status_read_without_pid [where a_id = "''agent-0001''"
      and w = "example_store\<lparr>agents := [''agent-0001'' \<mapsto> example_agent\<lparr>ag_claude_pid := None\<rparr>]\<rparr>"
      and a = "example_agent\<lparr>ag_claude_pid := None\<rparr>" and probe = "\<lambda>pid. Not_running"
      and complete_agent_reply = None]
  by (simp add: get_agent_by_id_def)

text \<open>
  Claim C9. Whatever the service does, the world after \<^verbatim>\<open>terminate_agent\<close> is the one the
  service leaves when called with the agent id: the reason has no part in it. When the
  service reports success, the answer carries the reason and the status \<^verbatim>\<open>terminated\<close>.
  With the service of the spec, a non-terminal agent becomes \<^verbatim>\<open>TERMINATED\<close>.
\<close>

theorem terminate_agent_reason:
  "snd (terminate_agent service a_id reason w) = snd (service a_id w) \<and>
   (fst (service a_id w) = Inr True \<longrightarrow>
      fst (terminate_agent service a_id reason w) = Terminated a_id reason ''terminated'') \<and>
   (get_agent_by_id a_id w = Some a \<and> \<not> is_terminal (ag_status a) \<longrightarrow>
      terminate_agent service_terminate_agent a_id reason w =
        (Terminated a_id reason ''terminated'',
         w\<lparr>agents := (agents w)(a_id \<mapsto> a\<lparr>ag_status := TERMINATED\<rparr>)\<rparr>))"
  by (auto simp: terminate_agent_def service_terminate_agent_def get_agent_by_id_def
      split: prod.splits sum.splits)

theorem terminate_agent_reason_witness:
  "fst (service_terminate_agent ''agent-0001'' example_store) = Inr True \<and>
   get_agent_by_id ''agent-0001'' example_store = Some example_agent \<and>
   \<not> is_terminal (ag_status example_agent) \<and>
   terminate_agent service_terminate_agent ''agent-0001'' ''out of budget'' example_store =
     (Terminated ''agent-0001'' ''out of budget'' ''terminated'',
      example_store\<lparr>agents := (agents example_store)(''agent-0001'' \<mapsto> example_agent\<lparr>ag_status := TERMINATED\<rparr>)\<rparr>)"
  using terminate_agent_reason [of service_terminate_agent "''agent-0001''" "''out of budget''"
      example_store example_agent]
  by (simp add: get_agent_by_id_def example_store_def example_agent_def example_world_def
      service_terminate_agent_def is_terminal_def)

text \<open>
  Two different reasons leave the same record: the reason is not stored.
\<close>

theorem terminate_agent_reason_not_stored:
  "get_agent_by_id ''agent-0001''
     (snd (terminate_agent service_terminate_agent ''agent-0001'' ''out of budget'' example_store))
   = get_agent_by_id ''agent-0001''
     (snd (terminate_agent service_terminate_agent ''agent-0001'' ''Manual termination'' example_store)) \<and>
   snd (terminate_agent service_terminate_agent ''agent-0001'' ''out of budget'' example_store)
   = snd (terminate_agent service_terminate_agent ''agent-0001'' ''Manual termination'' example_store) \<and>
   get_agent_by_id ''agent-0001''
     (snd (terminate_agent service_terminate_agent ''agent-0001'' ''out of budget'' example_store))
   = Some (example_agent\<lparr>ag_status := TERMINATED\<rparr>) \<and>
   ''out of budget'' \<noteq> ''Manual termination''"
  by (simp add: terminate_agent_def service_terminate_agent_def get_agent_by_id_def
      example_store_def example_agent_def example_world_def is_terminal_def)

subsection \<open>The bound on the spawns in flight\<close>

lemma in_flight_update:
  "i < length ps \<Longrightarrow>
   length (filter (\<lambda>p. p = In_flight) (ps[i := x])) + (if ps ! i = In_flight then 1 else 0)
     = length (filter (\<lambda>p. p = In_flight) ps) + (if x = In_flight then 1 else 0)"
proof (induction ps arbitrary: i)
  case Nil
  then show ?case by simp
next
  case (Cons p ps)
  show ?case
  proof (cases i)
    case 0
    then show ?thesis by simp
  next
    case (Suc j)
    then have "j < length ps" using Cons.prems by simp
    from Cons.IH [OF this] Suc show ?thesis by (auto split: if_splits)
  qed
qed

lemma step_invariant:
  assumes "step g g'"
  shows "permits g' + in_flight g' = permits g + in_flight g \<and> length (phases g') = length (phases g)"
  using assms
proof cases
  case (acquire i)
  then show ?thesis using in_flight_update [of i "phases g" In_flight]
    by (simp add: in_flight_def)
next
  case (release i)
  then show ?thesis using in_flight_update [of i "phases g" Done]
    by (simp add: in_flight_def)
qed

lemma steps_invariant:
  "step\<^sup>*\<^sup>* g g' \<Longrightarrow> permits g' + in_flight g' = permits g + in_flight g"
  by (induction rule: rtranclp_induct) (auto dest: step_invariant)

lemma in_flight_gather_start: "in_flight (gather_start v cfgs) = 0"
  by (simp add: in_flight_def gather_start_def)

lemma gather_bound: "step\<^sup>*\<^sup>* (gather_start v cfgs) g \<Longrightarrow> in_flight g \<le> v"
  using steps_invariant [of "gather_start v cfgs" g] in_flight_gather_start [of v cfgs]
  by (simp add: gather_start_def)

lemma wave_steps_invariant:
  assumes "(wave_step mc waves)\<^sup>*\<^sup>* (wave_start mc waves) (k, g)"
  shows "permits g + in_flight g = min mc (length (waves ! k))"
  using assms
proof (induction "(k, g)" arbitrary: k g rule: rtranclp_induct)
  case base
  then show ?case by (auto simp: wave_start_def wave_gate_def gather_start_def in_flight_def)
next
  case (step y)
  obtain k0 g0 where y: "y = (k0, g0)" by (cases y)
  from step(2) [unfolded y] show ?case
  proof cases
    case in_wave
    then show ?thesis using step(3) [OF y] step_invariant [of g0 g] by simp
  next
    case next_wave
    then show ?thesis by (simp add: wave_gate_def gather_start_def in_flight_def)
  qed
qed

lemma organize_by_dependencies_nonempty:
  "agents_config \<noteq> [] \<Longrightarrow> organize_by_dependencies agents_config = Inr waves \<Longrightarrow> waves \<noteq> []"
  using organize_by_dependencies_perm [of agents_config waves] by auto

lemma wave_steps_index:
  assumes "(wave_step mc waves)\<^sup>*\<^sup>* (wave_start mc waves) (k, g)" and "waves \<noteq> []"
  shows "k < length waves"
  using assms(1)
proof (induction "(k, g)" arbitrary: k g rule: rtranclp_induct)
  case base
  then show ?case using assms(2) by (simp add: wave_start_def)
next
  case (step y)
  obtain k0 g0 where y: "y = (k0, g0)" by (cases y)
  from step(2) [unfolded y] show ?case
  proof cases
    case in_wave
    then show ?thesis using step(3) [OF y] by simp
  next
    case next_wave
    then show ?thesis by simp
  qed
qed

lemma example_batch_waves:
  "organize_by_dependencies example_batch =
     Inr [[example_request ''A'' [], example_request ''B'' [PInt 0]], [example_request ''C'' [PStr ''zzz'']]]"
  by code_simp

text \<open>
  Claim C5. In parallel mode the spawn calls in flight are never more than
  \<^verbatim>\<open>max_concurrent\<close>. In dependency mode, with the waves that \<^verbatim>\<open>_organize_by_dependencies\<close>
  returns, the state is always in a wave of the batch, and the spawn calls in flight are
  never more than the smaller of \<^verbatim>\<open>max_concurrent\<close> and the size of that wave.
\<close>

theorem semaphore_bound:
  assumes "agents_config \<noteq> []"
  shows
  "(step\<^sup>*\<^sup>* (parallel_gate max_concurrent agents_config) g \<longrightarrow> in_flight g \<le> max_concurrent) \<and>
   (organize_by_dependencies agents_config = Inr waves \<and>
    (wave_step max_concurrent waves)\<^sup>*\<^sup>* (wave_start max_concurrent waves) (k, g') \<longrightarrow>
      k < length waves \<and>
      in_flight g' \<le> min max_concurrent (length (waves ! k)) \<and>
      in_flight g' \<le> max_concurrent)"
proof (intro conjI impI)
  assume "step\<^sup>*\<^sup>* (parallel_gate max_concurrent agents_config) g"
  then show "in_flight g \<le> max_concurrent"
    unfolding parallel_gate_def by (rule gather_bound)
next
  assume b: "organize_by_dependencies agents_config = Inr waves \<and>
    (wave_step max_concurrent waves)\<^sup>*\<^sup>* (wave_start max_concurrent waves) (k, g')"
  then have o: "organize_by_dependencies agents_config = Inr waves"
    and a: "(wave_step max_concurrent waves)\<^sup>*\<^sup>* (wave_start max_concurrent waves) (k, g')"
    by simp_all
  show "k < length waves"
    using wave_steps_index [OF a organize_by_dependencies_nonempty [OF assms o]] .
  from wave_steps_invariant [OF a]
  show "in_flight g' \<le> min max_concurrent (length (waves ! k))"
    by arith
  from wave_steps_invariant [OF a] show "in_flight g' \<le> max_concurrent" by arith
qed

theorem semaphore_bound_witness:
  "example_batch \<noteq> [] \<and>
   step\<^sup>*\<^sup>* (parallel_gate 2 example_batch) \<lparr>permits = 1, phases = [Waiting, In_flight, Waiting]\<rparr> \<and>
   in_flight \<lparr>permits = 1, phases = [Waiting, In_flight, Waiting]\<rparr> \<le> 2 \<and>
   organize_by_dependencies example_batch =
     Inr [[example_request ''A'' [], example_request ''B'' [PInt 0]], [example_request ''C'' [PStr ''zzz'']]] \<and>
   (wave_step 1 [[example_request ''A'' [], example_request ''B'' [PInt 0]], [example_request ''C'' [PStr ''zzz'']]])\<^sup>*\<^sup>*
      (wave_start 1 [[example_request ''A'' [], example_request ''B'' [PInt 0]], [example_request ''C'' [PStr ''zzz'']]])
      (0, \<lparr>permits = 0, phases = [In_flight, Waiting]\<rparr>) \<and>
   in_flight \<lparr>permits = 0, phases = [In_flight, Waiting]\<rparr>
     \<le> min 1 (length ([[example_request ''A'' [], example_request ''B'' [PInt 0]], [example_request ''C'' [PStr ''zzz'']]] ! 0))"
proof -
  define waves where "waves = [[example_request ''A'' [], example_request ''B'' [PInt 0]], [example_request ''C'' [PStr ''zzz'']]]"
  have n: "example_batch \<noteq> []" by (simp add: example_batch_def)
  have o: "organize_by_dependencies example_batch = Inr waves"
    unfolding waves_def by (rule example_batch_waves)
  have "step (parallel_gate 2 example_batch)
          ((parallel_gate 2 example_batch)
             \<lparr>permits := permits (parallel_gate 2 example_batch) - 1,
              phases := (phases (parallel_gate 2 example_batch))[1 := In_flight]\<rparr>)"
    by (rule step.acquire) (simp_all add: parallel_gate_def gather_start_def example_batch_def)
  then have "step (parallel_gate 2 example_batch) \<lparr>permits = 1, phases = [Waiting, In_flight, Waiting]\<rparr>"
    by (simp add: parallel_gate_def gather_start_def example_batch_def)
  then have p: "step\<^sup>*\<^sup>* (parallel_gate 2 example_batch) \<lparr>permits = 1, phases = [Waiting, In_flight, Waiting]\<rparr>"
    by (rule r_into_rtranclp)
  have g0: "wave_start 1 waves = (0, \<lparr>permits = 1, phases = [Waiting, Waiting]\<rparr>)"
    by (simp add: wave_start_def waves_def wave_gate_def gather_start_def)
  have "step \<lparr>permits = 1, phases = [Waiting, Waiting]\<rparr>
          (\<lparr>permits = 1, phases = [Waiting, Waiting]\<rparr>
             \<lparr>permits := permits \<lparr>permits = 1, phases = [Waiting, Waiting]\<rparr> - 1,
              phases := (phases \<lparr>permits = 1, phases = [Waiting, Waiting]\<rparr>)[0 := In_flight]\<rparr>)"
    by (rule step.acquire) simp_all
  then have "step \<lparr>permits = 1, phases = [Waiting, Waiting]\<rparr> \<lparr>permits = 0, phases = [In_flight, Waiting]\<rparr>"
    by simp
  then have "wave_step 1 waves
               (0, \<lparr>permits = 1, phases = [Waiting, Waiting]\<rparr>)
               (0, \<lparr>permits = 0, phases = [In_flight, Waiting]\<rparr>)"
    by (rule wave_step.in_wave)
  then have w: "(wave_step 1 waves)\<^sup>*\<^sup>* (wave_start 1 waves)
      (0, \<lparr>permits = 0, phases = [In_flight, Waiting]\<rparr>)"
    unfolding g0 by (rule r_into_rtranclp)
  have "example_batch \<noteq> [] \<and>
   step\<^sup>*\<^sup>* (parallel_gate 2 example_batch) \<lparr>permits = 1, phases = [Waiting, In_flight, Waiting]\<rparr> \<and>
   in_flight \<lparr>permits = 1, phases = [Waiting, In_flight, Waiting]\<rparr> \<le> 2 \<and>
   organize_by_dependencies example_batch = Inr waves \<and>
   (wave_step 1 waves)\<^sup>*\<^sup>* (wave_start 1 waves) (0, \<lparr>permits = 0, phases = [In_flight, Waiting]\<rparr>) \<and>
   in_flight \<lparr>permits = 0, phases = [In_flight, Waiting]\<rparr> \<le> min 1 (length (waves ! 0))"
    using semaphore_bound [OF n, where max_concurrent = 2
          and g = "\<lparr>permits = 1, phases = [Waiting, In_flight, Waiting]\<rparr>"]
      semaphore_bound [OF n, where max_concurrent = 1 and k = 0 and waves = waves
          and g' = "\<lparr>permits = 0, phases = [In_flight, Waiting]\<rparr>"] n p w o
    by simp
  then show ?thesis unfolding waves_def .
qed

end
